theory Spec2Isabelle
  imports Main "HOL-Library.AList" "HOL-Library.Char_ord" "HOL-Library.List_Lexorder"
begin

section \<open>Contracts (runner/contracts.py)\<close>

text \<open>
  The enumerations of \<^verbatim>\<open>contracts.py\<close>. Each is a \<^verbatim>\<open>str\<close>-valued Python enum; the
  constructors carry a prefix where two enumerations share a member name
  (\<^verbatim>\<open>RunState.FAILED\<close> and \<^verbatim>\<open>StepState.FAILED\<close>), and the \<^verbatim>\<open>.value\<close> of each
  member is given by the \<open>_value\<close> functions below.
\<close>

datatype RunState =
  R_CREATED | R_PREFLIGHT_VALIDATED | R_EXECUTING | R_BLOCKED | R_FAILED | R_SUCCEEDED
  | R_ROLLED_BACK

datatype StepState =
  S_PENDING | S_RUNNING | S_SUCCEEDED | S_FAILED | S_COMPENSATED | S_SKIPPED

datatype ErrorClass =
  TRANSIENT_IO | CONTRACT_INPUT_MISSING | HARD_GATE_FAILED | VALIDATION_FAILED | UNKNOWN

datatype EventType =
  RUN_CREATED | RUN_STATE_CHANGED | STEP_STARTED | STEP_SUCCEEDED | STEP_FAILED
  | STEP_RETRIED | STEP_COMPENSATED | ARTIFACT_EMITTED | GATE_FAILED | RUN_COMPLETED
  | RUN_OVERRIDE_APPLIED

datatype Actor = RUNNER | MANUAL

fun RunState_value :: "RunState \<Rightarrow> string" where
  "RunState_value R_CREATED = ''created''"
| "RunState_value R_PREFLIGHT_VALIDATED = ''preflight_validated''"
| "RunState_value R_EXECUTING = ''executing''"
| "RunState_value R_BLOCKED = ''blocked''"
| "RunState_value R_FAILED = ''failed''"
| "RunState_value R_SUCCEEDED = ''succeeded''"
| "RunState_value R_ROLLED_BACK = ''rolled_back''"

fun StepState_value :: "StepState \<Rightarrow> string" where
  "StepState_value S_PENDING = ''pending''"
| "StepState_value S_RUNNING = ''running''"
| "StepState_value S_SUCCEEDED = ''succeeded''"
| "StepState_value S_FAILED = ''failed''"
| "StepState_value S_COMPENSATED = ''compensated''"
| "StepState_value S_SKIPPED = ''skipped''"

fun ErrorClass_value :: "ErrorClass \<Rightarrow> string" where
  "ErrorClass_value TRANSIENT_IO = ''transient_io''"
| "ErrorClass_value CONTRACT_INPUT_MISSING = ''contract_input_missing''"
| "ErrorClass_value HARD_GATE_FAILED = ''hard_gate_failed''"
| "ErrorClass_value VALIDATION_FAILED = ''validation_failed''"
| "ErrorClass_value UNKNOWN = ''unknown''"

fun EventType_value :: "EventType \<Rightarrow> string" where
  "EventType_value RUN_CREATED = ''run.created''"
| "EventType_value RUN_STATE_CHANGED = ''run.state_changed''"
| "EventType_value STEP_STARTED = ''step.started''"
| "EventType_value STEP_SUCCEEDED = ''step.succeeded''"
| "EventType_value STEP_FAILED = ''step.failed''"
| "EventType_value STEP_RETRIED = ''step.retried''"
| "EventType_value STEP_COMPENSATED = ''step.compensated''"
| "EventType_value ARTIFACT_EMITTED = ''artifact.emitted''"
| "EventType_value GATE_FAILED = ''gate.failed''"
| "EventType_value RUN_COMPLETED = ''run.completed''"
| "EventType_value RUN_OVERRIDE_APPLIED = ''run.override_applied''"

fun Actor_value :: "Actor \<Rightarrow> string" where
  "Actor_value RUNNER = ''runner''"
| "Actor_value MANUAL = ''manual''"

text \<open>
  \<^verbatim>\<open>RunState(s)\<close> and \<^verbatim>\<open>ErrorClass(s)\<close>, the enum lookups by value: \<open>None\<close> stands for
  the \<^verbatim>\<open>ValueError\<close> Python raises on a string that is no member's value.
\<close>

definition RunState_of_value :: "string \<Rightarrow> RunState option" where
  "RunState_of_value s =
     (if s = ''created'' then Some R_CREATED
      else if s = ''preflight_validated'' then Some R_PREFLIGHT_VALIDATED
      else if s = ''executing'' then Some R_EXECUTING
      else if s = ''blocked'' then Some R_BLOCKED
      else if s = ''failed'' then Some R_FAILED
      else if s = ''succeeded'' then Some R_SUCCEEDED
      else if s = ''rolled_back'' then Some R_ROLLED_BACK
      else None)"

definition ErrorClass_of_value :: "string \<Rightarrow> ErrorClass option" where
  "ErrorClass_of_value s =
     (if s = ''transient_io'' then Some TRANSIENT_IO
      else if s = ''contract_input_missing'' then Some CONTRACT_INPUT_MISSING
      else if s = ''hard_gate_failed'' then Some HARD_GATE_FAILED
      else if s = ''validation_failed'' then Some VALIDATION_FAILED
      else if s = ''unknown'' then Some UNKNOWN
      else None)"

subsection \<open>The event record and its wire form\<close>

text \<open>
  The dataclass \<^verbatim>\<open>Event\<close>: six required fields and nine optional ones
  (\<^verbatim>\<open>Optional[...] = None\<close>), an absent value being \<open>None\<close>.
\<close>

record Event =
  event_id :: string
  event_type :: EventType
  run_id :: string
  timestamp_utc :: string
  actor :: Actor
  attempt :: int
  step_id :: "string option"
  error_class :: "ErrorClass option"
  reason :: "string option"
  inputs_hash :: "string option"
  outputs_hash :: "string option"
  artifact_path :: "string option"
  previous_state :: "string option"
  new_state :: "string option"
  override_reason :: "string option"

text \<open>
  The values a serialized event holds: JSON strings and integers. A Python \<^verbatim>\<open>dict\<close> with
  string keys is a map from strings to such values.
\<close>

datatype jval = JStr string | JInt int

type_synonym dict = "string \<rightharpoonup> jval"

text \<open>
  \<^verbatim>\<open>Event.to_dict\<close>: the dict literal with the six required keys, then one guarded
  assignment per optional field, in the order of the source.
\<close>

definition set_if_present :: "string \<Rightarrow> jval option \<Rightarrow> dict \<Rightarrow> dict" where
  "set_if_present k v result = (case v of None \<Rightarrow> result | Some x \<Rightarrow> result(k \<mapsto> x))"

definition to_dict :: "Event \<Rightarrow> dict" where
  "to_dict e =
     (let result = [''event_id'' \<mapsto> JStr (event_id e),
                    ''event_type'' \<mapsto> JStr (EventType_value (event_type e)),
                    ''run_id'' \<mapsto> JStr (run_id e),
                    ''timestamp_utc'' \<mapsto> JStr (timestamp_utc e),
                    ''actor'' \<mapsto> JStr (Actor_value (actor e)),
                    ''attempt'' \<mapsto> JInt (attempt e)];
          result = set_if_present ''step_id'' (map_option JStr (step_id e)) result;
          result = set_if_present ''error_class''
                     (map_option (JStr \<circ> ErrorClass_value) (error_class e)) result;
          result = set_if_present ''reason'' (map_option JStr (reason e)) result;
          result = set_if_present ''inputs_hash'' (map_option JStr (inputs_hash e)) result;
          result = set_if_present ''outputs_hash'' (map_option JStr (outputs_hash e)) result;
          result = set_if_present ''artifact_path'' (map_option JStr (artifact_path e)) result;
          result = set_if_present ''previous_state'' (map_option JStr (previous_state e)) result;
          result = set_if_present ''new_state'' (map_option JStr (new_state e)) result;
          result = set_if_present ''override_reason'' (map_option JStr (override_reason e)) result
      in result)"

subsection \<open>Event builders\<close>

text \<open>
  Every builder stamps \<^verbatim>\<open>event_id=Event.new_id()\<close> (a fresh UUID) and
  \<^verbatim>\<open>timestamp_utc=Event.now_utc()\<close> (the wall clock). Both come from outside the
  program, so each builder takes them as its last two arguments; the event log supplies
  them when the event is appended (see \<open>apply_action\<close>). \<open>Event_init\<close> is the
  dataclass constructor with the defaults \<^verbatim>\<open>attempt=0\<close> and \<^verbatim>\<open>None\<close> elsewhere.
\<close>

definition Event_init :: "EventType \<Rightarrow> string \<Rightarrow> string \<Rightarrow> string \<Rightarrow> Event" where
  "Event_init et rid eid ts =
     \<lparr>event_id = eid, event_type = et, run_id = rid, timestamp_utc = ts, actor = RUNNER,
      attempt = 0, step_id = None, error_class = None, reason = None, inputs_hash = None,
      outputs_hash = None, artifact_path = None, previous_state = None, new_state = None,
      override_reason = None\<rparr>"

definition run_created :: "string \<Rightarrow> string option \<Rightarrow> string \<Rightarrow> string \<Rightarrow> Event" where
  "run_created rid rsn eid ts =
     (Event_init RUN_CREATED rid eid ts)
       \<lparr>new_state := Some (RunState_value R_CREATED), reason := rsn\<rparr>"

definition run_state_changed ::
  "string \<Rightarrow> RunState \<Rightarrow> RunState \<Rightarrow> string option \<Rightarrow> string \<Rightarrow> string \<Rightarrow> Event" where
  "run_state_changed rid prev new rsn eid ts =
     (Event_init RUN_STATE_CHANGED rid eid ts)
       \<lparr>previous_state := Some (RunState_value prev), new_state := Some (RunState_value new),
        reason := rsn\<rparr>"

definition step_started :: "string \<Rightarrow> string \<Rightarrow> int \<Rightarrow> string \<Rightarrow> string \<Rightarrow> Event" where
  "step_started rid sid att eid ts =
     (Event_init STEP_STARTED rid eid ts)
       \<lparr>step_id := Some sid, attempt := att, new_state := Some (StepState_value S_RUNNING)\<rparr>"

definition step_succeeded ::
  "string \<Rightarrow> string \<Rightarrow> int \<Rightarrow> string option \<Rightarrow> string \<Rightarrow> string \<Rightarrow> Event" where
  "step_succeeded rid sid att out eid ts =
     (Event_init STEP_SUCCEEDED rid eid ts)
       \<lparr>step_id := Some sid, attempt := att,
        new_state := Some (StepState_value S_SUCCEEDED), outputs_hash := out\<rparr>"

definition step_failed ::
  "string \<Rightarrow> string \<Rightarrow> ErrorClass \<Rightarrow> string \<Rightarrow> int \<Rightarrow> string \<Rightarrow> string \<Rightarrow> Event" where
  "step_failed rid sid ec rsn att eid ts =
     (Event_init STEP_FAILED rid eid ts)
       \<lparr>step_id := Some sid, attempt := att, error_class := Some ec, reason := Some rsn,
        new_state := Some (StepState_value S_FAILED)\<rparr>"

definition step_retried :: "string \<Rightarrow> string \<Rightarrow> int \<Rightarrow> string \<Rightarrow> string \<Rightarrow> string \<Rightarrow> Event" where
  "step_retried rid sid att rsn eid ts =
     (Event_init STEP_RETRIED rid eid ts)
       \<lparr>step_id := Some sid, attempt := att, reason := Some rsn\<rparr>"

definition gate_failed ::
  "string \<Rightarrow> string \<Rightarrow> ErrorClass \<Rightarrow> string \<Rightarrow> string \<Rightarrow> string \<Rightarrow> Event" where
  "gate_failed rid sid ec rsn eid ts =
     (Event_init GATE_FAILED rid eid ts)
       \<lparr>step_id := Some sid, error_class := Some ec, reason := Some rsn\<rparr>"

definition run_completed :: "string \<Rightarrow> RunState \<Rightarrow> string option \<Rightarrow> string \<Rightarrow> string \<Rightarrow> Event" where
  "run_completed rid final rsn eid ts =
     (Event_init RUN_COMPLETED rid eid ts)
       \<lparr>new_state := Some (RunState_value final), reason := rsn\<rparr>"

subsection \<open>Step definitions\<close>

record StepDefinition =
  sd_step_id :: string
  sd_name :: string
  is_hard_gate :: bool
  is_manual_gated :: bool
  max_retries :: int
  retry_classes :: "ErrorClass list"

text \<open>\<^verbatim>\<open>StepDefinition.allows_retry\<close>.\<close>

definition StepDefinition_allows_retry :: "StepDefinition \<Rightarrow> ErrorClass \<Rightarrow> int \<Rightarrow> bool" where
  "StepDefinition_allows_retry step ec current_attempt =
     (if current_attempt \<ge> max_retries step then False else ec \<in> set (retry_classes step))"

text \<open>
  The dataclass constructor with its defaults (\<^verbatim>\<open>max_retries=0\<close>,
  \<^verbatim>\<open>retry_classes=[TRANSIENT_IO]\<close>), and the module constant \<^verbatim>\<open>PIPELINE_STEPS\<close>.
\<close>

definition StepDefinition_init :: "string \<Rightarrow> string \<Rightarrow> bool \<Rightarrow> bool \<Rightarrow> int \<Rightarrow> StepDefinition" where
  "StepDefinition_init sid nm hard manual retries =
     \<lparr>sd_step_id = sid, sd_name = nm, is_hard_gate = hard, is_manual_gated = manual,
      max_retries = retries, retry_classes = [TRANSIENT_IO]\<rparr>"

definition PIPELINE_STEPS :: "StepDefinition list" where
  "PIPELINE_STEPS =
     [StepDefinition_init ''preflight_contract_check'' ''Preflight contract check'' True False 0,
      StepDefinition_init ''phase_benchmark'' ''Phase benchmark'' True False 2,
      StepDefinition_init ''stage_data_layout'' ''Stage data layout'' False False 3,
      StepDefinition_init ''build_steward_bundle'' ''Build steward bundle'' False False 2,
      StepDefinition_init ''validate_bundle_quality'' ''Validate bundle quality'' True False 0,
      StepDefinition_init ''build_minimal_deliverable'' ''Build minimal deliverable'' False False 2,
      StepDefinition_init ''verify_artifacts'' ''Verify artifacts'' True False 0,
      StepDefinition_init ''publish_internal'' ''Publish internal'' False True 0]"

section \<open>State machines (runner/state\_machine.py)\<close>

text \<open>\<^verbatim>\<open>RunStateMachine.TRANSITIONS\<close> and the two class methods over it.\<close>

fun RunStateMachine_TRANSITIONS :: "RunState \<Rightarrow> RunState set" where
  "RunStateMachine_TRANSITIONS R_CREATED = {R_PREFLIGHT_VALIDATED, R_FAILED}"
| "RunStateMachine_TRANSITIONS R_PREFLIGHT_VALIDATED = {R_EXECUTING, R_FAILED}"
| "RunStateMachine_TRANSITIONS R_EXECUTING = {R_BLOCKED, R_FAILED, R_SUCCEEDED}"
| "RunStateMachine_TRANSITIONS R_BLOCKED = {R_EXECUTING, R_FAILED, R_ROLLED_BACK}"
| "RunStateMachine_TRANSITIONS R_FAILED = {R_ROLLED_BACK}"
| "RunStateMachine_TRANSITIONS R_SUCCEEDED = {}"
| "RunStateMachine_TRANSITIONS R_ROLLED_BACK = {}"

definition can_transition :: "RunState \<Rightarrow> RunState \<Rightarrow> bool" where
  "can_transition current target = (target \<in> RunStateMachine_TRANSITIONS current)"

text \<open>\<^verbatim>\<open>RetryPolicy.allows_retry\<close>.\<close>

definition RetryPolicy_allows_retry :: "StepDefinition \<Rightarrow> ErrorClass \<Rightarrow> int \<Rightarrow> bool" where
  "RetryPolicy_allows_retry step ec current_attempt =
     (if is_hard_gate step \<and> ec = HARD_GATE_FAILED then False
      else StepDefinition_allows_retry step ec current_attempt)"

subsection \<open>The pipeline DAG\<close>

text \<open>
  \<^verbatim>\<open>PipelineDAG.__init__\<close>: \<^verbatim>\<open>steps\<close> is a dict comprehension over the list (a later
  definition with the same id replaces an earlier one), \<^verbatim>\<open>order\<close> the list of ids as
  declared.
\<close>

record PipelineDAG =
  steps :: "string \<rightharpoonup> StepDefinition"
  order :: "string list"

definition PipelineDAG_init :: "StepDefinition list \<Rightarrow> PipelineDAG" where
  "PipelineDAG_init ps =
     \<lparr>steps = foldl (\<lambda>m step. m(sd_step_id step \<mapsto> step)) Map.empty ps,
      order = map sd_step_id ps\<rparr>"

definition get_step :: "PipelineDAG \<Rightarrow> string \<Rightarrow> StepDefinition option" where
  "get_step dag sid = steps dag sid"

text \<open>\<^verbatim>\<open>list.index\<close>: the first position of the value, \<open>None\<close> for its \<^verbatim>\<open>ValueError\<close>.\<close>

fun list_index :: "'a list \<Rightarrow> 'a \<Rightarrow> nat option" where
  "list_index [] x = None"
| "list_index (y # ys) x = (if y = x then Some 0 else map_option Suc (list_index ys x))"

definition get_upstream_steps :: "PipelineDAG \<Rightarrow> string \<Rightarrow> string list" where
  "get_upstream_steps dag sid =
     (case list_index (order dag) sid of Some idx \<Rightarrow> take idx (order dag) | None \<Rightarrow> [])"

definition get_downstream_steps :: "PipelineDAG \<Rightarrow> string \<Rightarrow> string list" where
  "get_downstream_steps dag sid =
     (case list_index (order dag) sid of Some idx \<Rightarrow> drop (idx + 1) (order dag) | None \<Rightarrow> [])"

text \<open>
  \<^verbatim>\<open>PipelineDAG.can_execute_step\<close>. The reason is an f-string around the step id or
  around the \<^verbatim>\<open>repr\<close> of a set; the model keeps which of the three messages it is and
  the value formatted into it.
\<close>

datatype gate_reason =
    Unknown_step string
  | Blocked_by_failed_hard_gates "string set"
  | Missing_upstream_dependencies "string set"

definition can_execute_step ::
  "PipelineDAG \<Rightarrow> string \<Rightarrow> string set \<Rightarrow> string set \<Rightarrow> bool \<times> gate_reason option" where
  "can_execute_step dag sid completed failed =
     (case get_step dag sid of
        None \<Rightarrow> (False, Some (Unknown_step sid))
      | Some step \<Rightarrow>
          (let upstream = set (get_upstream_steps dag sid);
               blocked_by = upstream \<inter> failed
           in if blocked_by \<noteq> {} then (False, Some (Blocked_by_failed_hard_gates blocked_by))
              else (let missing = upstream - completed
                    in if missing \<noteq> {} then (False, Some (Missing_upstream_dependencies missing))
                       else (True, None))))"

section \<open>The executor (runner/executor.py)\<close>

subsection \<open>Run context, event log and the runner's atomic effects\<close>

record RunContext =
  ctx_run_id :: string
  run_state :: RunState
  step_states :: "string \<rightharpoonup> StepState"
  step_attempts :: "string \<rightharpoonup> int"
  completed_steps :: "string set"
  failed_hard_gates :: "string set"
  artifacts :: "string \<rightharpoonup> string"

text \<open>
  What the program takes from outside: the UUID and the clock reading stamped on the
  \<open>n\<close>-th line of the log, and the text Python's \<^verbatim>\<open>repr\<close> gives a set (its element
  order is not fixed by the language).
\<close>

record env =
  new_id :: "nat \<Rightarrow> string"
  now_utc :: "nat \<Rightarrow> string"
  repr_set :: "string set \<Rightarrow> string"

text \<open>
  The state the executor works on: the in-memory context it mutates and the content of
  \<^verbatim>\<open>events.jsonl\<close>, one event per line in the order appended.
\<close>

record world =
  ctx :: RunContext
  log :: "Event list"
  sys :: env

text \<open>
  The executor's statements that touch state, one constructor per kind of statement:
  \<^verbatim>\<open>self.event_log.append(event)\<close> and the assignments to the context's fields. A block
  of the source is the list of its statements in program order, run by \<open>perform\<close>.
\<close>

datatype action =
    Append "string \<Rightarrow> string \<Rightarrow> Event"
  | Set_run_state RunState
  | Set_step_state string StepState
  | Set_step_attempt string int
  | Add_completed string
  | Add_failed_gate string

fun apply_action :: "action \<Rightarrow> world \<Rightarrow> world" where
  "apply_action (Append mk) w =
     w\<lparr>log := log w @ [mk (new_id (sys w) (length (log w))) (now_utc (sys w) (length (log w)))]\<rparr>"
| "apply_action (Set_run_state s) w = w\<lparr>ctx := (ctx w)\<lparr>run_state := s\<rparr>\<rparr>"
| "apply_action (Set_step_state sid s) w =
     w\<lparr>ctx := (ctx w)\<lparr>step_states := (step_states (ctx w))(sid \<mapsto> s)\<rparr>\<rparr>"
| "apply_action (Set_step_attempt sid n) w =
     w\<lparr>ctx := (ctx w)\<lparr>step_attempts := (step_attempts (ctx w))(sid \<mapsto> n)\<rparr>\<rparr>"
| "apply_action (Add_completed sid) w =
     w\<lparr>ctx := (ctx w)\<lparr>completed_steps := insert sid (completed_steps (ctx w))\<rparr>\<rparr>"
| "apply_action (Add_failed_gate sid) w =
     w\<lparr>ctx := (ctx w)\<lparr>failed_hard_gates := insert sid (failed_hard_gates (ctx w))\<rparr>\<rparr>"

definition perform :: "action list \<Rightarrow> world \<Rightarrow> world" where
  "perform acts w = foldl (\<lambda>w' a. apply_action a w') w acts"

text \<open>
  The exceptions of the runner. A \<^verbatim>\<open>ResumeError\<close> carries its message, kept as the
  message's kind and the value formatted into it (see \<^verbatim>\<open>resume.py\<close> below);
  \<open>StepException\<close> is whatever a step callable raises. \<open>Outside_model\<close> is no Python
  exception: it marks a log line whose \<^verbatim>\<open>run_id\<close>, \<^verbatim>\<open>step_id\<close>, \<^verbatim>\<open>timestamp_utc\<close>,
  \<^verbatim>\<open>reason\<close> or \<^verbatim>\<open>attempt\<close> has the wrong JSON type, which the runner never writes and
  the typed records of this theory cannot hold.

  The outcome of a call of the executor: the exception with the state at the moment it
  was raised (what was appended stays in the log), or the returned value with the state
  after the call.
\<close>

datatype resume_reason =
    Run_in_terminal_state RunState
  | Hard_gate_failures_block_resume "string set"
  | Unknown_run_state RunState

datatype resume_message =
    Event_log_not_found
  | Event_log_is_empty
  | First_event_must_be_run_created
  | Cannot_resume_run "resume_reason option"

datatype error =
    ValueError | KeyError | StepException | FileNotFoundError
  | ResumeError resume_message
  | Outside_model

datatype 'a result =
    is_Raise: Raise (raised: error) (world_of: world)
  | is_Return: Return (returned: 'a) (world_of: world)

text \<open>\<^verbatim>\<open>RunContext.initialize_steps\<close> and \<^verbatim>\<open>RunContext.can_run_step\<close>.\<close>

fun initialize_steps :: "string list \<Rightarrow> RunContext \<Rightarrow> RunContext" where
  "initialize_steps [] c = c"
| "initialize_steps (sid # rest) c =
     initialize_steps rest
       (c\<lparr>step_states := (step_states c)(sid \<mapsto> S_PENDING),
          step_attempts := (step_attempts c)(sid \<mapsto> 0)\<rparr>)"

definition can_run_step :: "RunContext \<Rightarrow> string \<Rightarrow> PipelineDAG \<Rightarrow> bool \<times> gate_reason option" where
  "can_run_step c sid dag = can_execute_step dag sid (completed_steps c) (failed_hard_gates c)"

subsection \<open>The step executor\<close>

text \<open>
  A step callable \<^verbatim>\<open>(ctx, step_id) -> (success, error_class, message)\<close>. It is opaque
  to the runner: its answer may depend on the context, on the step id and on anything
  else it can observe, for which the log so far stands (a callable that counts its own
  calls is a function of the log, every call being preceded by a fresh
  \<^verbatim>\<open>step.started\<close> line). It either raises or returns the triple. As the step callable
  contract requires, it does not write to the context or to the log.
\<close>

datatype step_outcome = Raises | Returns bool "ErrorClass option" "string option"

type_synonym StepFunction = "RunContext \<Rightarrow> Event list \<Rightarrow> string \<Rightarrow> step_outcome"

text \<open>
  The blocks of \<^verbatim>\<open>StepExecutor.execute_step\<close> and \<^verbatim>\<open>_emit_and_fail\<close>, each the list
  of its state-touching statements in the order of the source: the start of an attempt
  (lines 114-116), success (123-126), the \<^verbatim>\<open>step.failed\<close> event (134-141), the hard-gate
  branch (145-153), the retry branch (159-168), the no-retry branch (178) and
  \<^verbatim>\<open>_emit_and_fail\<close> (189-197).
\<close>

definition started_ops :: "RunContext \<Rightarrow> StepDefinition \<Rightarrow> int \<Rightarrow> action list" where
  "started_ops c step att =
     [Append (step_started (ctx_run_id c) (sd_step_id step) att),
      Set_step_state (sd_step_id step) S_RUNNING]"

definition succeeded_ops :: "RunContext \<Rightarrow> StepDefinition \<Rightarrow> int \<Rightarrow> action list" where
  "succeeded_ops c step att =
     [Append (step_succeeded (ctx_run_id c) (sd_step_id step) att None),
      Set_step_state (sd_step_id step) S_SUCCEEDED,
      Add_completed (sd_step_id step)]"

definition failed_ops ::
  "RunContext \<Rightarrow> StepDefinition \<Rightarrow> ErrorClass \<Rightarrow> string \<Rightarrow> int \<Rightarrow> action list" where
  "failed_ops c step ec rsn att =
     [Append (step_failed (ctx_run_id c) (sd_step_id step) ec rsn att)]"

definition gate_failed_ops ::
  "RunContext \<Rightarrow> StepDefinition \<Rightarrow> ErrorClass \<Rightarrow> string \<Rightarrow> action list" where
  "gate_failed_ops c step ec rsn =
     [Append (gate_failed (ctx_run_id c) (sd_step_id step) ec rsn),
      Add_failed_gate (sd_step_id step),
      Set_step_state (sd_step_id step) S_FAILED]"

definition retried_ops ::
  "RunContext \<Rightarrow> StepDefinition \<Rightarrow> ErrorClass \<Rightarrow> int \<Rightarrow> action list" where
  "retried_ops c step ec new_attempt =
     [Set_step_attempt (sd_step_id step) new_attempt,
      Append (step_retried (ctx_run_id c) (sd_step_id step) new_attempt
                (''Retrying after '' @ ErrorClass_value ec))]"

definition no_retry_ops :: "StepDefinition \<Rightarrow> action list" where
  "no_retry_ops step = [Set_step_state (sd_step_id step) S_FAILED]"

definition emit_and_fail_ops ::
  "RunContext \<Rightarrow> StepDefinition \<Rightarrow> ErrorClass \<Rightarrow> string \<Rightarrow> int \<Rightarrow> action list" where
  "emit_and_fail_ops c step ec rsn att =
     [Append (step_failed (ctx_run_id c) (sd_step_id step) ec rsn att),
      Set_step_state (sd_step_id step) S_FAILED]"

definition emit_and_fail ::
  "StepDefinition \<Rightarrow> ErrorClass \<Rightarrow> string \<Rightarrow> world \<Rightarrow> unit result" where
  "emit_and_fail step ec rsn w =
     (case step_attempts (ctx w) (sd_step_id step) of
        None \<Rightarrow> Raise KeyError w
      | Some att \<Rightarrow> Return () (perform (emit_and_fail_ops (ctx w) step ec rsn att) w))"

text \<open>
  \<^verbatim>\<open>StepExecutor.execute_step\<close>. \<^verbatim>\<open>error_class or ErrorClass.UNKNOWN\<close> and
  \<^verbatim>\<open>message or "Step failed"\<close> replace \<^verbatim>\<open>None\<close> (and the empty message) by the default.
  \<^verbatim>\<open>ctx.step_attempts[...] += 1\<close> reads the counter again before writing it. The backoff
  (\<^verbatim>\<open>time.sleep\<close> of a delay with random jitter) changes neither the context nor the
  log and is left out. The retry is the recursive call of the source; it terminates
  because a retry needs \<^verbatim>\<open>attempt < max_retries\<close> and raises the counter.
  Python's bound on the depth of recursion (a \<^verbatim>\<open>RecursionError\<close> after about a thousand
  nested retries) is not modelled.
\<close>

function execute_step ::
  "(string \<rightharpoonup> StepFunction) \<Rightarrow> StepDefinition \<Rightarrow> world \<Rightarrow> bool result" where
  "execute_step step_functions step w =
     (case step_functions (sd_step_id step) of
        None \<Rightarrow>
          (case emit_and_fail step UNKNOWN
                  (''No implementation for step: '' @ sd_step_id step) w of
             Raise e w' \<Rightarrow> Raise e w'
           | Return _ w' \<Rightarrow> Return False w')
      | Some step_func \<Rightarrow>
          (case step_attempts (ctx w) (sd_step_id step) of
             None \<Rightarrow> Raise KeyError w
           | Some att \<Rightarrow>
               (let w1 = perform (started_ops (ctx w) step att) w
                in case step_func (ctx w1) (log w1) (sd_step_id step) of
                     Raises \<Rightarrow> Raise StepException w1
                   | Returns success ec_opt message \<Rightarrow>
                       if success
                       then Return True (perform (succeeded_ops (ctx w1) step att) w1)
                       else
                         (let ec = (case ec_opt of None \<Rightarrow> UNKNOWN | Some c \<Rightarrow> c);
                              rsn = (case message of
                                       None \<Rightarrow> ''Step failed''
                                     | Some m \<Rightarrow> if m = [] then ''Step failed'' else m);
                              w2 = perform (failed_ops (ctx w1) step ec rsn att) w1
                          in if is_hard_gate step
                             then Return False (perform (gate_failed_ops (ctx w2) step ec rsn) w2)
                             else if RetryPolicy_allows_retry step ec att
                             then (case step_attempts (ctx w2) (sd_step_id step) of
                                     None \<Rightarrow> Raise KeyError w2
                                   | Some cur \<Rightarrow>
                                       execute_step step_functions step
                                         (perform (retried_ops (ctx w2) step ec (cur + 1)) w2))
                             else Return False (perform (no_retry_ops step) w2)))))"
  by pat_completeness auto
termination
  apply (relation "measure (\<lambda>(fns, step, w).
            nat (max_retries step -
                 (case step_attempts (ctx w) (sd_step_id step) of None \<Rightarrow> 0 | Some a \<Rightarrow> a)))")
   apply simp
  apply (auto simp: perform_def started_ops_def failed_ops_def retried_ops_def
      RetryPolicy_allows_retry_def StepDefinition_allows_retry_def split: if_splits)
  done

subsection \<open>The pipeline executor\<close>

text \<open>\<^verbatim>\<open>RunStateMachine.validate_transition\<close> raises \<^verbatim>\<open>ValueError\<close>; then the event, then the field.\<close>

definition transition_ops :: "RunContext \<Rightarrow> RunState \<Rightarrow> string option \<Rightarrow> action list" where
  "transition_ops c new rsn =
     [Append (run_state_changed (ctx_run_id c) (run_state c) new rsn),
      Set_run_state new]"

definition transition_run_state :: "RunState \<Rightarrow> string option \<Rightarrow> world \<Rightarrow> unit result" where
  "transition_run_state new rsn w =
     (if \<not> can_transition (run_state (ctx w)) new then Raise ValueError w
      else Return () (perform (transition_ops (ctx w) new rsn) w))"

definition fail_run :: "string \<Rightarrow> world \<Rightarrow> unit result" where
  "fail_run rsn w =
     (case (if run_state (ctx w) \<noteq> R_FAILED then transition_run_state R_FAILED (Some rsn) w
            else Return () w) of
        Raise e w' \<Rightarrow> Raise e w'
      | Return _ w1 \<Rightarrow>
          Return () (perform [Append (run_completed (ctx_run_id (ctx w1)) R_FAILED (Some rsn))] w1))"

definition complete_run :: "RunState \<Rightarrow> string \<Rightarrow> world \<Rightarrow> unit result" where
  "complete_run final rsn w =
     (case (if run_state (ctx w) \<noteq> final then transition_run_state final (Some rsn) w
            else Return () w) of
        Raise e w' \<Rightarrow> Raise e w'
      | Return _ w1 \<Rightarrow>
          Return () (perform [Append (run_completed (ctx_run_id (ctx w1)) final (Some rsn))] w1))"

text \<open>
  \<^verbatim>\<open>PipelineExecutor.start\<close>: append \<^verbatim>\<open>run.created\<close> to the log of the run directory
  (whatever it holds), then build a fresh context.
\<close>

definition RunContext_init :: "string \<Rightarrow> RunState \<Rightarrow> RunContext" where
  "RunContext_init rid st =
     \<lparr>ctx_run_id = rid, run_state = st, step_states = Map.empty, step_attempts = Map.empty,
      completed_steps = {}, failed_hard_gates = {}, artifacts = Map.empty\<rparr>"

definition start :: "PipelineDAG \<Rightarrow> env \<Rightarrow> Event list \<Rightarrow> string \<Rightarrow> string option \<Rightarrow> world" where
  "start dag e log0 rid rsn =
     (let log1 = log0 @ [run_created rid rsn (new_id e (length log0)) (now_utc e (length log0))];
          c = initialize_steps (order dag) (RunContext_init rid R_CREATED)
      in \<lparr>ctx = c, log = log1, sys = e\<rparr>)"

text \<open>
  The inner loop of the hard-gate branch of \<^verbatim>\<open>execute\<close> (lines 365-368):
  \<^verbatim>\<open>ctx.step_states[ds]\<close> raises \<^verbatim>\<open>KeyError\<close> on a step the context does not hold.
\<close>

fun skip_downstream :: "string list \<Rightarrow> world \<Rightarrow> unit result" where
  "skip_downstream [] w = Return () w"
| "skip_downstream (ds # rest) w =
     (case step_states (ctx w) ds of
        None \<Rightarrow> Raise KeyError w
      | Some st \<Rightarrow>
          skip_downstream rest
            (if st = S_PENDING then perform [Set_step_state ds S_SKIPPED] w else w))"

text \<open>
  \<^verbatim>\<open>PipelineExecutor.execute\<close>. \<open>execute_loop\<close> is the \<^verbatim>\<open>for step_id in self.dag.order\<close>
  loop on the ids still to visit together with what follows it: on the empty list the
  code after the loop (lines 375-383), in the hard-gate branch the early
  \<^verbatim>\<open>return ctx.run_state\<close> that leaves the remaining ids unvisited.
\<close>

fun execute_loop ::
  "PipelineDAG \<Rightarrow> (string \<rightharpoonup> StepFunction) \<Rightarrow> string list \<Rightarrow> world \<Rightarrow> RunState result" where
  "execute_loop dag fns [] w =
     (case (if failed_hard_gates (ctx w) \<noteq> {}
            then fail_run (''Hard gate failures: '' @ repr_set (sys w) (failed_hard_gates (ctx w))) w
            else complete_run R_SUCCEEDED ''All steps succeeded'' w) of
        Raise e w' \<Rightarrow> Raise e w'
      | Return _ w' \<Rightarrow> Return (run_state (ctx w')) w')"
| "execute_loop dag fns (sid # rest) w =
     (case get_step dag sid of
        None \<Rightarrow> execute_loop dag fns rest w
      | Some step \<Rightarrow>
          if \<not> fst (can_run_step (ctx w) sid dag)
          then execute_loop dag fns rest (perform [Set_step_state sid S_SKIPPED] w)
          else
            (case execute_step fns step w of
               Raise e w' \<Rightarrow> Raise e w'
             | Return success w1 \<Rightarrow>
                 if \<not> success \<and> is_hard_gate step
                 then
                   (case skip_downstream (get_downstream_steps dag sid) w1 of
                      Raise e w' \<Rightarrow> Raise e w'
                    | Return _ w2 \<Rightarrow>
                        (case fail_run (''Hard gate failed: '' @ sid) w2 of
                           Raise e w' \<Rightarrow> Raise e w'
                         | Return _ w3 \<Rightarrow> Return (run_state (ctx w3)) w3))
                 else execute_loop dag fns rest w1))"

definition execute :: "PipelineDAG \<Rightarrow> (string \<rightharpoonup> StepFunction) \<Rightarrow> world \<Rightarrow> RunState result" where
  "execute dag fns w =
     (case transition_run_state R_PREFLIGHT_VALIDATED
             (Some ''Pre-execution validation passed'') w of
        Raise e w' \<Rightarrow> Raise e w'
      | Return _ w1 \<Rightarrow>
          (case transition_run_state R_EXECUTING None w1 of
             Raise e w' \<Rightarrow> Raise e w'
           | Return _ w2 \<Rightarrow> execute_loop dag fns (order dag) w2))"

section \<open>Reconstruction and the resume guard (runner/resume.py)\<close>

text \<open>
  \<^verbatim>\<open>EventLog.read_all\<close> returns the parsed lines of the log, each a dict; the lines the
  runner wrote are \<open>map to_dict\<close> of the events it appended. \<open>get_str\<close> and \<open>get_int\<close>
  are the subscript \<^verbatim>\<open>event[k]\<close> (a \<^verbatim>\<open>KeyError\<close> on a missing key) of a field the
  typed context stores as a string or as an integer.
\<close>

definition get_str :: "dict \<Rightarrow> string \<Rightarrow> error + string" where
  "get_str d k =
     (case d k of None \<Rightarrow> Inl KeyError | Some (JStr s) \<Rightarrow> Inr s | Some (JInt _) \<Rightarrow> Inl Outside_model)"

definition get_int :: "dict \<Rightarrow> string \<Rightarrow> error + int" where
  "get_int d k =
     (case d k of None \<Rightarrow> Inl KeyError | Some (JInt n) \<Rightarrow> Inr n | Some (JStr _) \<Rightarrow> Inl Outside_model)"

text \<open>\<^verbatim>\<open>RunState(event["new_state"])\<close>: a missing key, then a value that names no state.\<close>

definition get_RunState :: "dict \<Rightarrow> string \<Rightarrow> error + RunState" where
  "get_RunState d k =
     (case d k of
        None \<Rightarrow> Inl KeyError
      | Some (JInt _) \<Rightarrow> Inl ValueError
      | Some (JStr s) \<Rightarrow> (case RunState_of_value s of None \<Rightarrow> Inl ValueError | Some st \<Rightarrow> Inr st))"

text \<open>\<^verbatim>\<open>RunReconstructor._apply_event\<close>: the \<^verbatim>\<open>if/elif\<close> chain on the event type.\<close>

definition apply_event :: "RunContext \<Rightarrow> dict \<Rightarrow> error + RunContext" where
  "apply_event c event =
     (case event ''event_type'' of
        None \<Rightarrow> Inl KeyError
      | Some ety \<Rightarrow>
          if ety = JStr ''run.state_changed''
          then (case get_RunState event ''new_state'' of
                  Inl e \<Rightarrow> Inl e
                | Inr st \<Rightarrow> Inr (c\<lparr>run_state := st\<rparr>))
          else if ety = JStr ''run.completed''
          then (case get_RunState event ''new_state'' of
                  Inl e \<Rightarrow> Inl e
                | Inr st \<Rightarrow> Inr (c\<lparr>run_state := st\<rparr>))
          else if ety = JStr ''step.started''
          then (case get_str event ''step_id'' of
                  Inl e \<Rightarrow> Inl e
                | Inr sid \<Rightarrow>
                    (case get_int event ''attempt'' of
                       Inl e \<Rightarrow> Inl e
                     | Inr n \<Rightarrow>
                         Inr (c\<lparr>step_states := (step_states c)(sid \<mapsto> S_RUNNING),
                                step_attempts := (step_attempts c)(sid \<mapsto> n)\<rparr>)))
          else if ety = JStr ''step.succeeded''
          then (case get_str event ''step_id'' of
                  Inl e \<Rightarrow> Inl e
                | Inr sid \<Rightarrow>
                    Inr (c\<lparr>step_states := (step_states c)(sid \<mapsto> S_SUCCEEDED),
                           completed_steps := insert sid (completed_steps c)\<rparr>))
          else if ety = JStr ''step.failed''
          then (case get_str event ''step_id'' of
                  Inl e \<Rightarrow> Inl e
                | Inr sid \<Rightarrow> Inr (c\<lparr>step_states := (step_states c)(sid \<mapsto> S_FAILED)\<rparr>))
          else if ety = JStr ''gate.failed''
          then (case get_str event ''step_id'' of
                  Inl e \<Rightarrow> Inl e
                | Inr sid \<Rightarrow> Inr (c\<lparr>failed_hard_gates := insert sid (failed_hard_gates c)\<rparr>))
          else if ety = JStr ''step.retried''
          then (case get_str event ''step_id'' of
                  Inl e \<Rightarrow> Inl e
                | Inr sid \<Rightarrow>
                    (case get_int event ''attempt'' of
                       Inl e \<Rightarrow> Inl e
                     | Inr n \<Rightarrow>
                         Inr (c\<lparr>step_attempts := (step_attempts c)(sid \<mapsto> n),
                                step_states := (step_states c)(sid \<mapsto> S_PENDING)\<rparr>)))
          else Inr c)"

fun replay :: "dict list \<Rightarrow> RunContext \<Rightarrow> error + RunContext" where
  "replay [] c = Inr c"
| "replay (event # rest) c =
     (case apply_event c event of Inl e \<Rightarrow> Inl e | Inr c' \<Rightarrow> replay rest c')"

text \<open>\<^verbatim>\<open>RunReconstructor.reconstruct\<close>, on the list \<^verbatim>\<open>read_all\<close> returned.\<close>

definition reconstruct :: "dict list \<Rightarrow> error + RunContext" where
  "reconstruct events =
     (case events of
        [] \<Rightarrow> Inl (ResumeError Event_log_is_empty)
      | first # _ \<Rightarrow>
          (case first ''event_type'' of
             None \<Rightarrow> Inl KeyError
           | Some ety \<Rightarrow>
               if ety \<noteq> JStr ''run.created''
               then Inl (ResumeError First_event_must_be_run_created)
               else (case get_str first ''run_id'' of
                       Inl e \<Rightarrow> Inl e
                     | Inr rid \<Rightarrow>
                         replay events
                           (initialize_steps (map sd_step_id PIPELINE_STEPS)
                              (RunContext_init rid R_CREATED)))))"

text \<open>
  \<^verbatim>\<open>ResumeGuard\<close>: the class constant \<^verbatim>\<open>TERMINAL_STATES\<close>, \<^verbatim>\<open>can_resume\<close> with its four
  tests in the order of the source and the final fallback, and \<^verbatim>\<open>validate_resume\<close>.
\<close>

definition TERMINAL_STATES :: "RunState set" where
  "TERMINAL_STATES = {R_SUCCEEDED, R_ROLLED_BACK}"

definition can_resume :: "RunContext \<Rightarrow> bool \<times> resume_reason option" where
  "can_resume c =
     (if run_state c \<in> TERMINAL_STATES
      then (False, Some (Run_in_terminal_state (run_state c)))
      else if run_state c = R_FAILED
      then (if failed_hard_gates c \<noteq> {}
            then (False, Some (Hard_gate_failures_block_resume (failed_hard_gates c)))
            else (True, None))
      else if run_state c = R_BLOCKED
      then (True, None)
      else if run_state c \<in> {R_CREATED, R_PREFLIGHT_VALIDATED, R_EXECUTING}
      then (True, None)
      else (False, Some (Unknown_run_state (run_state c))))"

definition validate_resume :: "RunContext \<Rightarrow> error + unit" where
  "validate_resume c =
     (case can_resume c of
        (can, rsn) \<Rightarrow> if \<not> can then Inl (ResumeError (Cannot_resume_run rsn)) else Inr ())"

text \<open>
  \<^verbatim>\<open>resume_run\<close>: the argument is the content of \<^verbatim>\<open>events.jsonl\<close> in the run directory,
  \<open>None\<close> when the file does not exist.
\<close>

definition resume_run :: "dict list option \<Rightarrow> error + RunContext" where
  "resume_run log_file =
     (case log_file of
        None \<Rightarrow> Inl (ResumeError Event_log_not_found)
      | Some events \<Rightarrow>
          (case reconstruct events of
             Inl e \<Rightarrow> Inl e
           | Inr c \<Rightarrow> (case validate_resume c of Inl e \<Rightarrow> Inl e | Inr _ \<Rightarrow> Inr c)))"

text \<open>
  \<^verbatim>\<open>cmd_resume\<close> of \<^verbatim>\<open>runner/cli.py\<close>, as its exit code. A \<^verbatim>\<open>ResumeError\<close> of
  \<^verbatim>\<open>resume_run\<close> is caught and gives 1, any other exception leaves the function; a
  returned context that holds a failed hard gate is refused ("Cannot resume: hard gate
  failures") with 1; otherwise the run is reported resumable with 0.
\<close>

definition cmd_resume :: "dict list option \<Rightarrow> error + int" where
  "cmd_resume log_file =
     (case resume_run log_file of
        Inl e \<Rightarrow> (case e of ResumeError m \<Rightarrow> Inr 1 | _ \<Rightarrow> Inl e)
      | Inr c \<Rightarrow> if failed_hard_gates c \<noteq> {} then Inr 1 else Inr 0)"

section \<open>The run summary (runner/summary.py)\<close>

record StepSummary =
  ss_step_id :: string
  ss_state :: StepState
  ss_attempts :: int
  ss_error_class :: "ErrorClass option"
  ss_error_reason :: "string option"
  ss_duration_ms :: "int option"
  ss_started_at :: "string option"
  ss_completed_at :: "string option"

record RunSummary =
  rs_run_id :: string
  rs_final_state :: RunState
  rs_created_at :: string
  rs_completed_at :: "string option"
  rs_duration_ms :: "int option"
  rs_steps :: "StepSummary list"
  rs_completed_steps :: int
  rs_failed_steps :: int
  rs_skipped_steps :: int
  rs_failed_hard_gates :: "string list"
  rs_total_attempts :: int
  rs_total_retries :: int

text \<open>
  The local variables of \<^verbatim>\<open>SummaryGenerator.generate\<close> that its first loop updates:
  the two fields of the summary it assigns (\<^verbatim>\<open>final_state\<close>, \<^verbatim>\<open>completed_at\<close>) and
  the tracking dicts. \<^verbatim>\<open>step_states\<close> is kept as an association list, its keys being
  enumerated later; the set \<^verbatim>\<open>gate_failures\<close> as a list without repetition.
\<close>

record tracker =
  t_final_state :: RunState
  t_completed_at :: "string option"
  t_step_states :: "(string \<times> StepState) list"
  t_step_attempts :: "string \<rightharpoonup> int"
  t_step_start_times :: "string \<rightharpoonup> string"
  t_step_errors :: "string \<rightharpoonup> (jval option \<times> jval option)"
  t_gate_failures :: "string list"
  t_retry_count :: int

text \<open>\<^verbatim>\<open>event.get("attempt", 0)\<close>.\<close>

definition get_int_default :: "dict \<Rightarrow> string \<Rightarrow> int \<Rightarrow> error + int" where
  "get_int_default d k dflt =
     (case d k of None \<Rightarrow> Inr dflt | Some (JInt n) \<Rightarrow> Inr n | Some (JStr _) \<Rightarrow> Inl Outside_model)"

text \<open>One round of the loop over the events (lines 181-212).\<close>

definition process_event :: "dict \<Rightarrow> tracker \<Rightarrow> error + tracker" where
  "process_event event t =
     (case event ''event_type'' of
        None \<Rightarrow> Inl KeyError
      | Some ety \<Rightarrow>
          (case get_str event ''timestamp_utc'' of
             Inl e \<Rightarrow> Inl e
           | Inr timestamp \<Rightarrow>
               if ety = JStr ''run.state_changed'' \<or> ety = JStr ''run.completed''
               then (case get_RunState event ''new_state'' of
                       Inl e \<Rightarrow> Inl e
                     | Inr st \<Rightarrow>
                         Inr (t\<lparr>t_final_state := st, t_completed_at := Some timestamp\<rparr>))
               else if ety = JStr ''step.started''
               then (case get_str event ''step_id'' of
                       Inl e \<Rightarrow> Inl e
                     | Inr sid \<Rightarrow>
                         (case get_int_default event ''attempt'' 0 of
                            Inl e \<Rightarrow> Inl e
                          | Inr n \<Rightarrow>
                              Inr (t\<lparr>t_step_states := AList.update sid S_RUNNING (t_step_states t),
                                     t_step_attempts := (t_step_attempts t)(sid \<mapsto> n),
                                     t_step_start_times :=
                                       (t_step_start_times t)(sid \<mapsto> timestamp)\<rparr>)))
               else if ety = JStr ''step.succeeded''
               then (case get_str event ''step_id'' of
                       Inl e \<Rightarrow> Inl e
                     | Inr sid \<Rightarrow>
                         Inr (t\<lparr>t_step_states :=
                                  AList.update sid S_SUCCEEDED (t_step_states t)\<rparr>))
               else if ety = JStr ''step.failed''
               then (case get_str event ''step_id'' of
                       Inl e \<Rightarrow> Inl e
                     | Inr sid \<Rightarrow>
                         Inr (t\<lparr>t_step_states := AList.update sid S_FAILED (t_step_states t),
                                t_step_errors :=
                                  (t_step_errors t)
                                    (sid \<mapsto> (event ''error_class'', event ''reason''))\<rparr>))
               else if ety = JStr ''step.retried''
               then Inr (t\<lparr>t_retry_count := t_retry_count t + 1\<rparr>)
               else if ety = JStr ''gate.failed''
               then (case get_str event ''step_id'' of
                       Inl e \<Rightarrow> Inl e
                     | Inr sid \<Rightarrow>
                         Inr (t\<lparr>t_gate_failures := List.insert sid (t_gate_failures t)\<rparr>))
               else Inr t))"

fun process_events :: "dict list \<Rightarrow> tracker \<Rightarrow> error + tracker" where
  "process_events [] t = Inr t"
| "process_events (event # rest) t =
     (case process_event event t of Inl e \<Rightarrow> Inl e | Inr t' \<Rightarrow> process_events rest t')"

text \<open>
  The error class and reason of a step summary (lines 219-229):
  \<^verbatim>\<open>error_info.get("class")\<close>, passed through \<^verbatim>\<open>ErrorClass(...)\<close> when truthy, and
  \<^verbatim>\<open>error_info.get("reason")\<close>. A falsy class that is not \<^verbatim>\<open>None\<close> would stay in the
  summary as it is, which the typed record cannot hold.
\<close>

definition summary_error_class :: "jval option \<Rightarrow> error + ErrorClass option" where
  "summary_error_class v =
     (case v of
        None \<Rightarrow> Inr None
      | Some (JStr s) \<Rightarrow>
          if s = [] then Inl Outside_model
          else (case ErrorClass_of_value s of None \<Rightarrow> Inl ValueError | Some c \<Rightarrow> Inr (Some c))
      | Some (JInt n) \<Rightarrow> if n = 0 then Inl Outside_model else Inl ValueError)"

definition summary_error_reason :: "jval option \<Rightarrow> error + string option" where
  "summary_error_reason v =
     (case v of None \<Rightarrow> Inr None | Some (JStr s) \<Rightarrow> Inr (Some s) | Some (JInt _) \<Rightarrow> Inl Outside_model)"

text \<open>
  The loop that builds the step summaries (lines 215-241), over
  \<^verbatim>\<open>sorted(step_states.keys())\<close>.
\<close>

fun build_steps :: "string list \<Rightarrow> tracker \<Rightarrow> RunSummary \<Rightarrow> error + RunSummary" where
  "build_steps [] t summary = Inr summary"
| "build_steps (sid # rest) t summary =
     (case map_of (t_step_states t) sid of
        None \<Rightarrow> Inl KeyError
      | Some state \<Rightarrow>
          (let attempts = (case t_step_attempts t sid of None \<Rightarrow> 0 | Some n \<Rightarrow> n) + 1;
               error_info = (case t_step_errors t sid of None \<Rightarrow> (None, None) | Some i \<Rightarrow> i)
           in case summary_error_class (fst error_info) of
                Inl e \<Rightarrow> Inl e
              | Inr ec \<Rightarrow>
                  (case summary_error_reason (snd error_info) of
                     Inl e \<Rightarrow> Inl e
                   | Inr er \<Rightarrow>
                       (let step_summary =
                              \<lparr>ss_step_id = sid, ss_state = state, ss_attempts = attempts,
                               ss_error_class = ec, ss_error_reason = er,
                               ss_duration_ms = None,
                               ss_started_at = t_step_start_times t sid,
                               ss_completed_at = None\<rparr>;
                            summary1 = summary\<lparr>rs_steps := rs_steps summary @ [step_summary]\<rparr>;
                            summary2 =
                              (if state = S_SUCCEEDED
                               then summary1\<lparr>rs_completed_steps := rs_completed_steps summary1 + 1\<rparr>
                               else if state = S_FAILED
                               then summary1\<lparr>rs_failed_steps := rs_failed_steps summary1 + 1\<rparr>
                               else if state = S_SKIPPED
                               then summary1\<lparr>rs_skipped_steps := rs_skipped_steps summary1 + 1\<rparr>
                               else summary1)
                        in build_steps rest t summary2))))"

text \<open>
  \<^verbatim>\<open>SummaryGenerator.generate\<close>, on the list \<^verbatim>\<open>read_all\<close> returned. The duration is
  computed by \<^verbatim>\<open>datetime\<close> from the two ISO timestamps; \<open>diff_ms\<close> stands for that
  computation (\<open>None\<close> when \<^verbatim>\<open>fromisoformat\<close> raises \<^verbatim>\<open>ValueError\<close>).
\<close>

definition generate :: "(string \<Rightarrow> string \<Rightarrow> int option) \<Rightarrow> dict list \<Rightarrow> error + RunSummary" where
  "generate diff_ms events =
     (case events of
        [] \<Rightarrow> Inl ValueError
      | first # _ \<Rightarrow>
          (case get_str first ''run_id'' of
             Inl e \<Rightarrow> Inl e
           | Inr rid \<Rightarrow>
               (case get_str first ''timestamp_utc'' of
                  Inl e \<Rightarrow> Inl e
                | Inr created_at \<Rightarrow>
                    (case process_events events
                            \<lparr>t_final_state = R_CREATED, t_completed_at = None,
                             t_step_states = [], t_step_attempts = Map.empty,
                             t_step_start_times = Map.empty, t_step_errors = Map.empty,
                             t_gate_failures = [], t_retry_count = 0\<rparr> of
                       Inl e \<Rightarrow> Inl e
                     | Inr t \<Rightarrow>
                         (case build_steps (sort (map fst (t_step_states t))) t
                                 \<lparr>rs_run_id = rid, rs_final_state = t_final_state t,
                                  rs_created_at = created_at,
                                  rs_completed_at = t_completed_at t, rs_duration_ms = None,
                                  rs_steps = [], rs_completed_steps = 0, rs_failed_steps = 0,
                                  rs_skipped_steps = 0, rs_failed_hard_gates = [],
                                  rs_total_attempts = 0, rs_total_retries = 0\<rparr> of
                            Inl e \<Rightarrow> Inl e
                          | Inr summary \<Rightarrow>
                              (let summary1 =
                                     summary
                                       \<lparr>rs_total_attempts :=
                                          sum_list (map ss_attempts (rs_steps summary)),
                                        rs_total_retries := t_retry_count t,
                                        rs_failed_hard_gates := sort (t_gate_failures t)\<rparr>
                               in case rs_completed_at summary1 of
                                    None \<Rightarrow> Inr summary1
                                  | Some completed_at \<Rightarrow>
                                      if completed_at \<noteq> [] \<and> created_at \<noteq> []
                                      then (case diff_ms created_at completed_at of
                                              None \<Rightarrow> Inl ValueError
                                            | Some ms \<Rightarrow>
                                                Inr (summary1\<lparr>rs_duration_ms := Some ms\<rparr>))
                                      else Inr summary1))))))"

text \<open>
  \<^verbatim>\<open>generate_summary\<close>: the argument is the content of \<^verbatim>\<open>events.jsonl\<close> in the run
  directory, \<open>None\<close> when the file does not exist.
\<close>

definition generate_summary ::
  "(string \<Rightarrow> string \<Rightarrow> int option) \<Rightarrow> dict list option \<Rightarrow> error + RunSummary" where
  "generate_summary diff_ms log_file =
     (case log_file of None \<Rightarrow> Inl FileNotFoundError | Some events \<Rightarrow> generate diff_ms events)"

section \<open>Notions used to state the properties\<close>

text \<open>
  The event that describes an assignment to the context, in the words of the
  specification: a run-state change is described by \<^verbatim>\<open>run.state_changed\<close>, a step
  becoming \<^verbatim>\<open>RUNNING\<close>, \<^verbatim>\<open>SUCCEEDED\<close> or \<^verbatim>\<open>FAILED\<close> by \<^verbatim>\<open>step.started\<close>,
  \<^verbatim>\<open>step.succeeded\<close> or \<^verbatim>\<open>step.failed\<close>, a new attempt count by \<^verbatim>\<open>step.retried\<close>, a
  new completed step by \<^verbatim>\<open>step.succeeded\<close> and a new failed hard gate by
  \<^verbatim>\<open>gate.failed\<close>. \<open>event_before_update seen block\<close> says that every assignment of the
  block comes after the append of the event describing it (in the block, or among the
  event types \<open>seen\<close> appended before it).
\<close>

fun describing_event :: "action \<Rightarrow> EventType option" where
  "describing_event (Append mk) = None"
| "describing_event (Set_run_state s) = Some RUN_STATE_CHANGED"
| "describing_event (Set_step_state sid s) =
     (if s = S_RUNNING then Some STEP_STARTED
      else if s = S_SUCCEEDED then Some STEP_SUCCEEDED
      else if s = S_FAILED then Some STEP_FAILED
      else None)"
| "describing_event (Set_step_attempt sid n) = Some STEP_RETRIED"
| "describing_event (Add_completed sid) = Some STEP_SUCCEEDED"
| "describing_event (Add_failed_gate sid) = Some GATE_FAILED"

fun event_before_update :: "EventType list \<Rightarrow> action list \<Rightarrow> bool" where
  "event_before_update seen [] = True"
| "event_before_update seen (a # rest) =
     (case a of
        Append mk \<Rightarrow> event_before_update (event_type (mk [] []) # seen) rest
      | _ \<Rightarrow>
          (case describing_event a of None \<Rightarrow> True | Some ety \<Rightarrow> ety \<in> set seen)
          \<and> event_before_update seen rest)"

text \<open>
  The steps a log speaks of: the ids carried by its \<^verbatim>\<open>step.started\<close>,
  \<^verbatim>\<open>step.succeeded\<close> and \<^verbatim>\<open>step.failed\<close> lines.
\<close>

definition step_event_id :: "dict \<Rightarrow> string option" where
  "step_event_id d =
     (if d ''event_type'' = Some (JStr ''step.started'')
         \<or> d ''event_type'' = Some (JStr ''step.succeeded'')
         \<or> d ''event_type'' = Some (JStr ''step.failed'')
      then (case d ''step_id'' of Some (JStr sid) \<Rightarrow> Some sid | _ \<Rightarrow> None)
      else None)"

definition logged_steps :: "dict list \<Rightarrow> string set" where
  "logged_steps events = set (List.map_filter step_event_id events)"








section \<open>Concrete runs\<close>

text \<open>A fixed source of ids, clock readings and set texts for the concrete runs.\<close>

definition fixed_env :: env where
  "fixed_env =
     \<lparr>new_id = (\<lambda>n. ''id''), now_utc = (\<lambda>n. ''2026-01-01T00:00:00+00:00''),
      repr_set = (\<lambda>s. ''{}'')\<rparr>"

text \<open>
  A run of the repository's own pipeline \<^verbatim>\<open>PIPELINE_STEPS\<close> whose first step, the hard
  gate \<^verbatim>\<open>preflight_contract_check\<close>, fails; and the first six lines of its log, which
  is what \<^verbatim>\<open>events.jsonl\<close> holds when the process is stopped after \<^verbatim>\<open>gate.failed\<close> was
  appended and before the transition to \<^verbatim>\<open>FAILED\<close> is.
\<close>

definition preflight_fails :: "string \<rightharpoonup> StepFunction" where
  "preflight_fails =
     [''preflight_contract_check'' \<mapsto>
        (\<lambda>c l s. Returns False (Some HARD_GATE_FAILED) (Some ''threshold''))]"

definition preflight_run :: "RunState result" where
  "preflight_run =
     execute (PipelineDAG_init PIPELINE_STEPS) preflight_fails
       (start (PipelineDAG_init PIPELINE_STEPS) fixed_env [] ''run_123'' None)"

definition interrupted_events :: "Event list" where
  "interrupted_events =
     [run_created ''run_123'' None ''id'' ''2026-01-01T00:00:00+00:00'',
      run_state_changed ''run_123'' R_CREATED R_PREFLIGHT_VALIDATED
        (Some ''Pre-execution validation passed'') ''id'' ''2026-01-01T00:00:00+00:00'',
      run_state_changed ''run_123'' R_PREFLIGHT_VALIDATED R_EXECUTING None
        ''id'' ''2026-01-01T00:00:00+00:00'',
      step_started ''run_123'' ''preflight_contract_check'' 0
        ''id'' ''2026-01-01T00:00:00+00:00'',
      step_failed ''run_123'' ''preflight_contract_check'' HARD_GATE_FAILED ''threshold'' 0
        ''id'' ''2026-01-01T00:00:00+00:00'',
      gate_failed ''run_123'' ''preflight_contract_check'' HARD_GATE_FAILED ''threshold''
        ''id'' ''2026-01-01T00:00:00+00:00'']"

text \<open>
  Scenario S2: three steps, the second a hard gate whose callable returns
  \<^verbatim>\<open>(False, HARD_GATE_FAILED, "threshold")\<close>; the callable of the third raises if it
  is ever called.
\<close>

definition s2_dag :: PipelineDAG where
  "s2_dag =
     PipelineDAG_init
       [StepDefinition_init ''step_1'' ''Step 1'' False False 0,
        StepDefinition_init ''step_2'' ''Step 2'' True False 0,
        StepDefinition_init ''step_3'' ''Step 3'' False False 0]"

definition s2_fns :: "string \<rightharpoonup> StepFunction" where
  "s2_fns =
     [''step_1'' \<mapsto> (\<lambda>c l s. Returns True None None),
      ''step_2'' \<mapsto> (\<lambda>c l s. Returns False (Some HARD_GATE_FAILED) (Some ''threshold'')),
      ''step_3'' \<mapsto> (\<lambda>c l s. Raises)]"

definition s2_start :: world where
  "s2_start = start s2_dag fixed_env [] ''run_123'' None"

text \<open>
  Two steps, the first with no callable registered; \<open>hard\<close> says whether the first step
  is a hard gate.
\<close>

definition nocall_dag :: "bool \<Rightarrow> PipelineDAG" where
  "nocall_dag hard =
     PipelineDAG_init
       [StepDefinition_init ''step_1'' ''Step 1'' hard False 0,
        StepDefinition_init ''step_2'' ''Step 2'' False False 0]"

definition nocall_fns :: "string \<rightharpoonup> StepFunction" where
  "nocall_fns = [''step_2'' \<mapsto> (\<lambda>c l s. Returns True None None)]"

definition nocall_start :: "bool \<Rightarrow> world" where
  "nocall_start hard = start (nocall_dag hard) fixed_env [] ''run_123'' None"

text \<open>
  The run of the repository's test \<^verbatim>\<open>test_summary_with_failures\<close>: two steps, the
  first a hard gate whose callable returns \<^verbatim>\<open>(False, HARD_GATE_FAILED, "Hard gate
  failed")\<close>; and a duration function for its summary.
\<close>

definition sum_dag :: PipelineDAG where
  "sum_dag =
     PipelineDAG_init
       [StepDefinition_init ''step_1'' ''Step 1'' True False 0,
        StepDefinition_init ''step_2'' ''Step 2'' False False 0]"

definition sum_fns :: "string \<rightharpoonup> StepFunction" where
  "sum_fns =
     [''step_1'' \<mapsto> (\<lambda>c l s. Returns False (Some HARD_GATE_FAILED) (Some ''Hard gate failed'')),
      ''step_2'' \<mapsto> (\<lambda>c l s. Returns True None None)]"

definition sum_run :: "RunState result" where
  "sum_run = execute sum_dag sum_fns (start sum_dag fixed_env [] ''run_123'' None)"

definition zero_diff :: "string \<Rightarrow> string \<Rightarrow> int option" where
  "zero_diff created_at completed_at = Some 0"

declare execute_step.simps [simp del]

section \<open>Properties of the wire form\<close>

lemma set_if_present_other: "k' \<noteq> k \<Longrightarrow> set_if_present k v m k' = m k'"
  by (simp add: set_if_present_def split: option.splits)

lemma set_if_present_same:
  "m k = None \<Longrightarrow> set_if_present k (map_option f v) m k = map_option f v"
  by (cases v) (simp_all add: set_if_present_def)

lemma dom_set_if_present_map:
  "dom (set_if_present k (map_option f v) m) = dom m \<union> (case v of None \<Rightarrow> {} | Some _ \<Rightarrow> {k})"
  by (simp add: set_if_present_def split: option.splits)

lemma to_dict_required:
  "to_dict e ''event_id'' = Some (JStr (event_id e))
   \<and> to_dict e ''event_type'' = Some (JStr (EventType_value (event_type e)))
   \<and> to_dict e ''run_id'' = Some (JStr (run_id e))
   \<and> to_dict e ''timestamp_utc'' = Some (JStr (timestamp_utc e))
   \<and> to_dict e ''actor'' = Some (JStr (Actor_value (actor e)))
   \<and> to_dict e ''attempt'' = Some (JInt (attempt e))"
  by (simp add: to_dict_def set_if_present_other)

lemma to_dict_optional:
  "to_dict e ''step_id'' = map_option JStr (step_id e)
   \<and> to_dict e ''error_class'' = map_option (JStr \<circ> ErrorClass_value) (error_class e)
   \<and> to_dict e ''reason'' = map_option JStr (reason e)
   \<and> to_dict e ''inputs_hash'' = map_option JStr (inputs_hash e)
   \<and> to_dict e ''outputs_hash'' = map_option JStr (outputs_hash e)
   \<and> to_dict e ''artifact_path'' = map_option JStr (artifact_path e)
   \<and> to_dict e ''previous_state'' = map_option JStr (previous_state e)
   \<and> to_dict e ''new_state'' = map_option JStr (new_state e)
   \<and> to_dict e ''override_reason'' = map_option JStr (override_reason e)"
  by (simp add: to_dict_def set_if_present_other set_if_present_same)

lemma to_dict_dom:
  "dom (to_dict e) =
     {''event_id'', ''event_type'', ''run_id'', ''timestamp_utc'', ''actor'', ''attempt''}
     \<union> (case step_id e of None \<Rightarrow> {} | Some _ \<Rightarrow> {''step_id''})
     \<union> (case error_class e of None \<Rightarrow> {} | Some _ \<Rightarrow> {''error_class''})
     \<union> (case reason e of None \<Rightarrow> {} | Some _ \<Rightarrow> {''reason''})
     \<union> (case inputs_hash e of None \<Rightarrow> {} | Some _ \<Rightarrow> {''inputs_hash''})
     \<union> (case outputs_hash e of None \<Rightarrow> {} | Some _ \<Rightarrow> {''outputs_hash''})
     \<union> (case artifact_path e of None \<Rightarrow> {} | Some _ \<Rightarrow> {''artifact_path''})
     \<union> (case previous_state e of None \<Rightarrow> {} | Some _ \<Rightarrow> {''previous_state''})
     \<union> (case new_state e of None \<Rightarrow> {} | Some _ \<Rightarrow> {''new_state''})
     \<union> (case override_reason e of None \<Rightarrow> {} | Some _ \<Rightarrow> {''override_reason''})"
proof -
  have req: "dom [''event_id'' \<mapsto> JStr (event_id e),
                  ''event_type'' \<mapsto> JStr (EventType_value (event_type e)),
                  ''run_id'' \<mapsto> JStr (run_id e),
                  ''timestamp_utc'' \<mapsto> JStr (timestamp_utc e),
                  ''actor'' \<mapsto> JStr (Actor_value (actor e)),
                  ''attempt'' \<mapsto> JInt (attempt e)]
      = {''event_id'', ''event_type'', ''run_id'', ''timestamp_utc'', ''actor'', ''attempt''}"
    by auto
  show ?thesis
    unfolding to_dict_def Let_def dom_set_if_present_map req ..
qed

text \<open>
  Claim C8. For every event, \<^verbatim>\<open>to_dict\<close> holds the six required keys with the event's
  values, whatever the event; each of the nine optional keys is bound exactly when the
  field is present (the lookup is \<open>None\<close> exactly for an absent field) and then to the
  field's value; the keys of the dict are the six required ones and the present optional
  ones, nothing else; and \<^verbatim>\<open>event_type\<close>, \<^verbatim>\<open>actor\<close> and \<^verbatim>\<open>error_class\<close> are written as
  the string values of their enum members.
\<close>

theorem to_dict_wire_form:
  "(to_dict e ''event_id'' = Some (JStr (event_id e))
    \<and> to_dict e ''event_type'' = Some (JStr (EventType_value (event_type e)))
    \<and> to_dict e ''run_id'' = Some (JStr (run_id e))
    \<and> to_dict e ''timestamp_utc'' = Some (JStr (timestamp_utc e))
    \<and> to_dict e ''actor'' = Some (JStr (Actor_value (actor e)))
    \<and> to_dict e ''attempt'' = Some (JInt (attempt e)))
   \<and> (to_dict e ''step_id'' = map_option JStr (step_id e)
    \<and> to_dict e ''error_class'' = map_option (JStr \<circ> ErrorClass_value) (error_class e)
    \<and> to_dict e ''reason'' = map_option JStr (reason e)
    \<and> to_dict e ''inputs_hash'' = map_option JStr (inputs_hash e)
    \<and> to_dict e ''outputs_hash'' = map_option JStr (outputs_hash e)
    \<and> to_dict e ''artifact_path'' = map_option JStr (artifact_path e)
    \<and> to_dict e ''previous_state'' = map_option JStr (previous_state e)
    \<and> to_dict e ''new_state'' = map_option JStr (new_state e)
    \<and> to_dict e ''override_reason'' = map_option JStr (override_reason e))
   \<and> dom (to_dict e) =
       {''event_id'', ''event_type'', ''run_id'', ''timestamp_utc'', ''actor'', ''attempt''}
       \<union> (case step_id e of None \<Rightarrow> {} | Some _ \<Rightarrow> {''step_id''})
       \<union> (case error_class e of None \<Rightarrow> {} | Some _ \<Rightarrow> {''error_class''})
       \<union> (case reason e of None \<Rightarrow> {} | Some _ \<Rightarrow> {''reason''})
       \<union> (case inputs_hash e of None \<Rightarrow> {} | Some _ \<Rightarrow> {''inputs_hash''})
       \<union> (case outputs_hash e of None \<Rightarrow> {} | Some _ \<Rightarrow> {''outputs_hash''})
       \<union> (case artifact_path e of None \<Rightarrow> {} | Some _ \<Rightarrow> {''artifact_path''})
       \<union> (case previous_state e of None \<Rightarrow> {} | Some _ \<Rightarrow> {''previous_state''})
       \<union> (case new_state e of None \<Rightarrow> {} | Some _ \<Rightarrow> {''new_state''})
       \<union> (case override_reason e of None \<Rightarrow> {} | Some _ \<Rightarrow> {''override_reason''})"
  using to_dict_required [of e] to_dict_optional [of e] to_dict_dom [of e] by blast

section \<open>Unfolding the executor\<close>

lemmas executor_defs =
  execute_def start_def PipelineDAG_init_def RunContext_init_def transition_run_state_def
  can_transition_def perform_def transition_ops_def get_step_def can_run_step_def
  can_execute_step_def get_upstream_steps_def get_downstream_steps_def started_ops_def
  succeeded_ops_def failed_ops_def gate_failed_ops_def retried_ops_def no_retry_ops_def
  emit_and_fail_def emit_and_fail_ops_def RetryPolicy_allows_retry_def
  StepDefinition_allows_retry_def complete_run_def fail_run_def

lemmas builder_defs =
  step_started_def step_succeeded_def step_failed_def step_retried_def gate_failed_def
  run_created_def run_state_changed_def run_completed_def Event_init_def

lemma to_dict_simps:
  "to_dict e ''event_type'' = Some (JStr (EventType_value (event_type e)))"
  "to_dict e ''run_id'' = Some (JStr (run_id e))"
  "to_dict e ''timestamp_utc'' = Some (JStr (timestamp_utc e))"
  "to_dict e ''attempt'' = Some (JInt (attempt e))"
  "to_dict e ''step_id'' = map_option JStr (step_id e)"
  "to_dict e ''new_state'' = map_option JStr (new_state e)"
  "to_dict e ''error_class'' = map_option (JStr \<circ> ErrorClass_value) (error_class e)"
  "to_dict e ''reason'' = map_option JStr (reason e)"
  using to_dict_required [of e] to_dict_optional [of e] by simp_all

section \<open>DAG gating\<close>

lemma list_index_None: "list_index xs x = None \<longleftrightarrow> x \<notin> set xs"
  by (induction xs) auto

lemma list_index_take: "list_index xs x = Some i \<Longrightarrow> take i xs = takeWhile (\<lambda>y. y \<noteq> x) xs"
  by (induction xs arbitrary: i) (auto split: if_splits)

lemma get_upstream_steps_takeWhile:
  "get_upstream_steps dag sid =
     (if sid \<in> set (order dag) then takeWhile (\<lambda>y. y \<noteq> sid) (order dag) else [])"
proof (cases "list_index (order dag) sid")
  case None
  then show ?thesis
    using list_index_None [of "order dag" sid] by (simp add: get_upstream_steps_def)
next
  case (Some i)
  then have "sid \<in> set (order dag)"
    using list_index_None [of "order dag" sid] by auto
  then show ?thesis
    using Some by (simp add: get_upstream_steps_def list_index_take)
qed

lemma foldl_steps_None:
  "foldl (\<lambda>m step. m(sd_step_id step \<mapsto> step)) m0 ps k = None
     \<longleftrightarrow> m0 k = None \<and> k \<notin> sd_step_id ` set ps"
  by (induction ps arbitrary: m0) auto

lemma get_step_init_None:
  "get_step (PipelineDAG_init ps) sid = None \<longleftrightarrow> sid \<notin> sd_step_id ` set ps"
  by (simp add: get_step_def PipelineDAG_init_def foldl_steps_None)



text \<open>
  Claim C5. For every pipeline (any list of step definitions, in its declared order) and
  every pair of sets \<open>completed\<close> and \<open>failed\<close>, \<^verbatim>\<open>can_execute_step\<close> answers: for an id
  that no step of the pipeline declares, \<open>False\<close> with the unknown-step reason;
  otherwise, with \<open>upstream\<close> the ids declared before the (first) position of the id,
  \<open>False\<close> with the blocked-by-failed-hard-gates reason (naming the upstream failed
  gates) when some upstream id is in \<open>failed\<close>; otherwise \<open>False\<close> with the
  missing-upstream-dependencies reason (naming the missing ids) when some upstream id is
  not in \<open>completed\<close>; otherwise \<open>True\<close> with no reason.
\<close>

theorem can_execute_step_cases:
  "can_execute_step (PipelineDAG_init ps) sid completed failed =
     (if sid \<notin> sd_step_id ` set ps then (False, Some (Unknown_step sid))
      else let upstream = set (takeWhile (\<lambda>y. y \<noteq> sid) (map sd_step_id ps))
           in if upstream \<inter> failed \<noteq> {}
              then (False, Some (Blocked_by_failed_hard_gates (upstream \<inter> failed)))
              else if upstream - completed \<noteq> {}
              then (False, Some (Missing_upstream_dependencies (upstream - completed)))
              else (True, None))"
proof (cases "get_step (PipelineDAG_init ps) sid")
  case None
  then show ?thesis
    using get_step_init_None [of ps sid] by (simp add: can_execute_step_def)
next
  case (Some step)
  then have declared: "sid \<in> sd_step_id ` set ps"
    using get_step_init_None [of ps sid] by auto
  then have up: "get_upstream_steps (PipelineDAG_init ps) sid
      = takeWhile (\<lambda>y. y \<noteq> sid) (map sd_step_id ps)"
    by (simp add: get_upstream_steps_takeWhile PipelineDAG_init_def)
  show ?thesis
    using Some declared by (simp add: can_execute_step_def up Let_def)
qed

section \<open>The resume guard\<close>

text \<open>
  Claim C10. \<^verbatim>\<open>can_resume\<close> answers every run state through one of its four tests:
  the terminal states, \<^verbatim>\<open>FAILED\<close>, \<^verbatim>\<open>BLOCKED\<close> and the three in-progress states cover
  the seven members of \<^verbatim>\<open>RunState\<close>, so the reason is never the fallback's "Unknown run
  state", whatever the context.
\<close>

theorem can_resume_total:
  "snd (can_resume c) \<noteq> Some (Unknown_run_state s)
   \<and> can_resume c =
       (case run_state c of
          R_SUCCEEDED \<Rightarrow> (False, Some (Run_in_terminal_state R_SUCCEEDED))
        | R_ROLLED_BACK \<Rightarrow> (False, Some (Run_in_terminal_state R_ROLLED_BACK))
        | R_FAILED \<Rightarrow>
            (if failed_hard_gates c \<noteq> {}
             then (False, Some (Hard_gate_failures_block_resume (failed_hard_gates c)))
             else (True, None))
        | R_BLOCKED \<Rightarrow> (True, None)
        | R_CREATED \<Rightarrow> (True, None)
        | R_PREFLIGHT_VALIDATED \<Rightarrow> (True, None)
        | R_EXECUTING \<Rightarrow> (True, None))"
  by (cases "run_state c") (simp_all add: can_resume_def TERMINAL_STATES_def)

text \<open>
  What \<^verbatim>\<open>resume_run\<close> does with a log that reconstructs to a context: the set
  \<^verbatim>\<open>failed_hard_gates\<close> is looked at in state \<^verbatim>\<open>FAILED\<close> only.
\<close>

lemma resume_run_decision:
  assumes "reconstruct events = Inr c"
  shows "resume_run (Some events) =
     (if run_state c = R_SUCCEEDED \<or> run_state c = R_ROLLED_BACK
      then Inl (ResumeError (Cannot_resume_run (Some (Run_in_terminal_state (run_state c)))))
      else if run_state c = R_FAILED \<and> failed_hard_gates c \<noteq> {}
      then Inl (ResumeError (Cannot_resume_run
                  (Some (Hard_gate_failures_block_resume (failed_hard_gates c)))))
      else Inr c)"
  using assms
  by (cases "run_state c")
     (simp_all add: resume_run_def validate_resume_def can_resume_def TERMINAL_STATES_def)

lemmas resume_defs =
  resume_run_def reconstruct_def apply_event_def get_str_def get_int_def get_RunState_def
  RunState_of_value_def validate_resume_def can_resume_def TERMINAL_STATES_def
  PIPELINE_STEPS_def StepDefinition_init_def RunContext_init_def

text \<open>
  The run of the default pipeline whose first step, the hard gate
  \<^verbatim>\<open>preflight_contract_check\<close>, fails writes eight lines: the six of
  \<open>interrupted_events\<close>, then the transition to \<^verbatim>\<open>FAILED\<close> and \<^verbatim>\<open>run.completed\<close>.
\<close>

lemma interrupted_events_written_by_run:
  "take 6 (log (world_of preflight_run)) = interrupted_events
   \<and> length (log (world_of preflight_run)) = 8"
  by (simp add: preflight_run_def preflight_fails_def interrupted_events_def PIPELINE_STEPS_def
        fixed_env_def StepDefinition_init_def executor_defs execute_step.simps Let_def)

lemma preflight_run_log:
  "log (world_of preflight_run) =
     interrupted_events @
     [run_state_changed ''run_123'' R_EXECUTING R_FAILED
        (Some ''Hard gate failed: preflight_contract_check'')
        ''id'' ''2026-01-01T00:00:00+00:00'',
      run_completed ''run_123'' R_FAILED (Some ''Hard gate failed: preflight_contract_check'')
        ''id'' ''2026-01-01T00:00:00+00:00'']"
  by (simp add: preflight_run_def preflight_fails_def interrupted_events_def PIPELINE_STEPS_def
        fixed_env_def StepDefinition_init_def executor_defs execute_step.simps Let_def)

lemma completed_log_refused:
  "resume_run (Some (map to_dict (log (world_of preflight_run)))) =
     Inl (ResumeError (Cannot_resume_run
            (Some (Hard_gate_failures_block_resume {''preflight_contract_check''}))))"
  unfolding preflight_run_log
  by (simp add: interrupted_events_def resume_defs to_dict_simps builder_defs)

lemma interrupted_log_accepted:
  "\<not> isl (resume_run (Some (map to_dict interrupted_events)))
   \<and> run_state (projr (resume_run (Some (map to_dict interrupted_events)))) = R_EXECUTING
   \<and> failed_hard_gates (projr (resume_run (Some (map to_dict interrupted_events))))
       = {''preflight_contract_check''}"
  by (simp add: interrupted_events_def resume_defs to_dict_simps builder_defs)

lemma interrupted_log_refused_by_cli:
  "cmd_resume (Some (map to_dict interrupted_events)) = Inr 1"
  using interrupted_log_accepted
  by (cases "resume_run (Some (map to_dict interrupted_events))") (simp_all add: cmd_resume_def)

text \<open>
  Claim C3, on the code. \<^verbatim>\<open>resume_run\<close> is to raise \<^verbatim>\<open>ResumeError\<close> for every
  reconstructed context that holds a failed hard gate. It does so for the complete log
  of the run above, which ends in state \<^verbatim>\<open>FAILED\<close>. Cut after its sixth line (the process
  stopped once \<^verbatim>\<open>gate.failed\<close> was appended and before the transition to \<^verbatim>\<open>FAILED\<close>
  was), the same log reconstructs to state \<^verbatim>\<open>EXECUTING\<close> with
  \<^verbatim>\<open>failed_hard_gates = {preflight_contract_check}\<close>, and \<^verbatim>\<open>resume_run\<close> raises nothing
  and returns that context: \<^verbatim>\<open>can_resume\<close> tests the set in its \<^verbatim>\<open>FAILED\<close> branch only.
  \<^verbatim>\<open>cmd_resume\<close>, the caller, refuses the returned context with exit code 1.
\<close>

theorem resume_run_accepts_interrupted_gate_failure:
  "take 6 (log (world_of preflight_run)) = interrupted_events
   \<and> resume_run (Some (map to_dict (log (world_of preflight_run)))) =
       Inl (ResumeError (Cannot_resume_run
              (Some (Hard_gate_failures_block_resume {''preflight_contract_check''}))))
   \<and> \<not> isl (resume_run (Some (map to_dict interrupted_events)))
   \<and> run_state (projr (resume_run (Some (map to_dict interrupted_events)))) = R_EXECUTING
   \<and> failed_hard_gates (projr (resume_run (Some (map to_dict interrupted_events))))
       = {''preflight_contract_check''}
   \<and> cmd_resume (Some (map to_dict interrupted_events)) = Inr 1"
  using interrupted_events_written_by_run completed_log_refused interrupted_log_accepted
    interrupted_log_refused_by_cli
  by blast

section \<open>Hard gates and retries\<close>

text \<open>
  Claim C2, on the code. A hard gate with \<^verbatim>\<open>max_retries = 2\<close> and retry class
  \<^verbatim>\<open>TRANSIENT_IO\<close> whose callable fails with \<^verbatim>\<open>TRANSIENT_IO\<close> at attempt 0:
  \<^verbatim>\<open>RetryPolicy.allows_retry\<close> permits the retry, and yet \<^verbatim>\<open>execute_step\<close> does not
  retry. In any state that holds an attempt count for the step it appends
  \<^verbatim>\<open>step.started\<close>, \<^verbatim>\<open>step.failed\<close> and \<^verbatim>\<open>gate.failed\<close>, records the failed gate, marks
  the step \<^verbatim>\<open>FAILED\<close> and returns \<^verbatim>\<open>False\<close>: no \<^verbatim>\<open>step.retried\<close> is appended and the
  callable is not called again, the hard-gate branch returning before the retry policy
  is consulted.
\<close>

theorem hard_gate_transient_failure_not_retried:
  "RetryPolicy_allows_retry
      (step\<lparr>is_hard_gate := True, max_retries := 2, retry_classes := [TRANSIENT_IO]\<rparr>)
      TRANSIENT_IO 0
   \<and> execute_step [sd_step_id step \<mapsto> (\<lambda>c l s. Returns False (Some TRANSIENT_IO) (Some ''timeout''))]
        (step\<lparr>is_hard_gate := True, max_retries := 2, retry_classes := [TRANSIENT_IO]\<rparr>) w =
       (case step_attempts (ctx w) (sd_step_id step) of
          None \<Rightarrow> Raise KeyError w
        | Some att \<Rightarrow>
            Return False
              (perform
                 [Append (step_started (ctx_run_id (ctx w)) (sd_step_id step) att),
                  Set_step_state (sd_step_id step) S_RUNNING,
                  Append (step_failed (ctx_run_id (ctx w)) (sd_step_id step) TRANSIENT_IO
                            ''timeout'' att),
                  Append (gate_failed (ctx_run_id (ctx w)) (sd_step_id step) TRANSIENT_IO
                            ''timeout''),
                  Add_failed_gate (sd_step_id step),
                  Set_step_state (sd_step_id step) S_FAILED] w))"
  apply (subst execute_step.simps)
  apply (simp add: executor_defs Let_def split: option.splits)
  done

section \<open>Order of the log and the context\<close>

text \<open>
  Claim C4, on the code. The retry block of \<^verbatim>\<open>execute_step\<close> assigns the new attempt
  count to \<^verbatim>\<open>ctx.step_attempts\<close> first and appends \<^verbatim>\<open>step.retried\<close> after it, so the
  assignment is not preceded by the event that describes it, neither in the block nor
  in the whole failed attempt that leads to it. Every other block appends first: the
  run-state transition, the start of a step, its success, its failure (with and without
  the hard-gate branch) and \<^verbatim>\<open>_emit_and_fail\<close>.
\<close>

theorem retry_updates_attempts_before_event:
  "retried_ops c step ec n =
     [Set_step_attempt (sd_step_id step) n,
      Append (step_retried (ctx_run_id c) (sd_step_id step) n
                (''Retrying after '' @ ErrorClass_value ec))]
   \<and> \<not> event_before_update [] (retried_ops c step ec n)
   \<and> \<not> event_before_update []
          (started_ops c step att @ failed_ops c step ec rsn att @ retried_ops c step ec n)
   \<and> event_before_update [] (transition_ops c new r)
   \<and> event_before_update [] (started_ops c step att)
   \<and> event_before_update [] (succeeded_ops c step att)
   \<and> event_before_update [] (failed_ops c step ec rsn att @ no_retry_ops step)
   \<and> event_before_update [] (failed_ops c step ec rsn att @ gate_failed_ops c step ec rsn)
   \<and> event_before_update [] (emit_and_fail_ops c step ec rsn att)"
  by (simp add: executor_defs builder_defs)

section \<open>What a step leaves unchanged\<close>















section \<open>The fail-closed rule\<close>



















lemmas scenario_defs =
  s2_dag_def s2_fns_def s2_start_def fixed_env_def StepDefinition_init_def
  nocall_dag_def nocall_fns_def nocall_start_def




section \<open>A step with no callable\<close>





section \<open>The summary\<close>

lemma keys_update: "fst ` set (AList.update k v al) = insert k (fst ` set al)"
  by (induction al) auto

lemma vals_update: "snd ` set (AList.update k v al) \<subseteq> insert v (snd ` set al)"
  by (induction al) auto

lemma get_str_Inr: "get_str d k = Inr s \<longleftrightarrow> d k = Some (JStr s)"
  by (auto simp: get_str_def split: option.splits jval.splits)

lemma process_event_started:
  "d ''event_type'' = Some (JStr ''step.started'') \<Longrightarrow>
   process_event d t =
     (case get_str d ''timestamp_utc'' of
        Inl e \<Rightarrow> Inl e
      | Inr timestamp \<Rightarrow>
          (case get_str d ''step_id'' of
             Inl e \<Rightarrow> Inl e
           | Inr sid \<Rightarrow>
               (case get_int_default d ''attempt'' 0 of
                  Inl e \<Rightarrow> Inl e
                | Inr n \<Rightarrow>
                    Inr (t\<lparr>t_step_states := AList.update sid S_RUNNING (t_step_states t),
                           t_step_attempts := (t_step_attempts t)(sid \<mapsto> n),
                           t_step_start_times := (t_step_start_times t)(sid \<mapsto> timestamp)\<rparr>))))"
  by (simp add: process_event_def split: sum.splits)

lemma process_event_succeeded:
  "d ''event_type'' = Some (JStr ''step.succeeded'') \<Longrightarrow>
   process_event d t =
     (case get_str d ''timestamp_utc'' of
        Inl e \<Rightarrow> Inl e
      | Inr timestamp \<Rightarrow>
          (case get_str d ''step_id'' of
             Inl e \<Rightarrow> Inl e
           | Inr sid \<Rightarrow>
               Inr (t\<lparr>t_step_states := AList.update sid S_SUCCEEDED (t_step_states t)\<rparr>)))"
  by (simp add: process_event_def split: sum.splits)

lemma process_event_failed:
  "d ''event_type'' = Some (JStr ''step.failed'') \<Longrightarrow>
   process_event d t =
     (case get_str d ''timestamp_utc'' of
        Inl e \<Rightarrow> Inl e
      | Inr timestamp \<Rightarrow>
          (case get_str d ''step_id'' of
             Inl e \<Rightarrow> Inl e
           | Inr sid \<Rightarrow>
               Inr (t\<lparr>t_step_states := AList.update sid S_FAILED (t_step_states t),
                      t_step_errors :=
                        (t_step_errors t)(sid \<mapsto> (d ''error_class'', d ''reason''))\<rparr>)))"
  by (simp add: process_event_def split: sum.splits)

lemma process_event_other:
  assumes "d ''event_type'' \<noteq> Some (JStr ''step.started'')"
    and "d ''event_type'' \<noteq> Some (JStr ''step.succeeded'')"
    and "d ''event_type'' \<noteq> Some (JStr ''step.failed'')"
    and "process_event d t = Inr t'"
  shows "t_step_states t' = t_step_states t"
proof -
  obtain ety where ety: "d ''event_type'' = Some ety"
    using assms(4) by (cases "d ''event_type''") (simp_all add: process_event_def)
  obtain ts where ts: "get_str d ''timestamp_utc'' = Inr ts"
    using assms(4) ety by (cases "get_str d ''timestamp_utc''") (simp_all add: process_event_def)
  have n: "ety \<noteq> JStr ''step.started''" "ety \<noteq> JStr ''step.succeeded''"
    "ety \<noteq> JStr ''step.failed''"
    using assms(1-3) ety by simp_all
  show ?thesis
  proof (cases "ety = JStr ''run.state_changed'' \<or> ety = JStr ''run.completed''")
    case True
    then show ?thesis
      using assms(4) ety ts
      by (cases "get_RunState d ''new_state''") (auto simp: process_event_def)
  next
    case a: False
    show ?thesis
    proof (cases "ety = JStr ''step.retried''")
      case True
      then show ?thesis
        using assms(4) ety ts by (auto simp: process_event_def)
    next
      case b: False
      show ?thesis
      proof (cases "ety = JStr ''gate.failed''")
        case True
        then show ?thesis
          using assms(4) ety ts
          by (cases "get_str d ''step_id''") (auto simp: process_event_def)
      next
        case False
        then show ?thesis
          using assms(4) ety ts a b n by (simp add: process_event_def)
      qed
    qed
  qed
qed

lemma process_event_keys:
  assumes "process_event d t = Inr t'"
  shows "fst ` set (t_step_states t')
           = fst ` set (t_step_states t) \<union> set_option (step_event_id d)
         \<and> (S_SKIPPED \<notin> snd ` set (t_step_states t)
              \<longrightarrow> S_SKIPPED \<notin> snd ` set (t_step_states t'))"
proof -
  consider (started) "d ''event_type'' = Some (JStr ''step.started'')"
    | (succeeded) "d ''event_type'' = Some (JStr ''step.succeeded'')"
    | (failed) "d ''event_type'' = Some (JStr ''step.failed'')"
    | (other) "d ''event_type'' \<noteq> Some (JStr ''step.started'')"
        "d ''event_type'' \<noteq> Some (JStr ''step.succeeded'')"
        "d ''event_type'' \<noteq> Some (JStr ''step.failed'')"
    by blast
  then show ?thesis
  proof cases
    case started
    from assms obtain sid st where sid: "d ''step_id'' = Some (JStr sid)"
      and st: "t_step_states t' = AList.update sid st (t_step_states t)" "st \<noteq> S_SKIPPED"
      unfolding process_event_started [where d = d and t = t, OF started]
      by (auto simp: get_str_Inr split: sum.splits)
    show ?thesis
      using started sid st vals_update [of sid st "t_step_states t"]
      by (auto simp: step_event_id_def keys_update)
  next
    case succeeded
    from assms obtain sid st where sid: "d ''step_id'' = Some (JStr sid)"
      and st: "t_step_states t' = AList.update sid st (t_step_states t)" "st \<noteq> S_SKIPPED"
      unfolding process_event_succeeded [where d = d and t = t, OF succeeded]
      by (auto simp: get_str_Inr split: sum.splits)
    show ?thesis
      using succeeded sid st vals_update [of sid st "t_step_states t"]
      by (auto simp: step_event_id_def keys_update)
  next
    case failed
    from assms obtain sid st where sid: "d ''step_id'' = Some (JStr sid)"
      and st: "t_step_states t' = AList.update sid st (t_step_states t)" "st \<noteq> S_SKIPPED"
      unfolding process_event_failed [where d = d and t = t, OF failed]
      by (auto simp: get_str_Inr split: sum.splits)
    show ?thesis
      using failed sid st vals_update [of sid st "t_step_states t"]
      by (auto simp: step_event_id_def keys_update)
  next
    case other
    from process_event_other [OF other assms] show ?thesis
      using other by (simp add: step_event_id_def)
  qed
qed

lemma process_events_keys:
  "process_events events t = Inr t' \<Longrightarrow>
   fst ` set (t_step_states t') = fst ` set (t_step_states t) \<union> logged_steps events
   \<and> (S_SKIPPED \<notin> snd ` set (t_step_states t)
        \<longrightarrow> S_SKIPPED \<notin> snd ` set (t_step_states t'))"
proof (induction events arbitrary: t)
  case Nil
  then show ?case by (simp add: logged_steps_def map_filter_simps)
next
  case (Cons d rest)
  then obtain t1 where t1: "process_event d t = Inr t1" "process_events rest t1 = Inr t'"
    by (auto split: sum.splits)
  have "logged_steps (d # rest) = set_option (step_event_id d) \<union> logged_steps rest"
    by (cases "step_event_id d") (simp_all add: logged_steps_def map_filter_simps)
  then show ?case
    using process_event_keys [OF t1(1)] Cons.IH [OF t1(2)] by auto
qed

lemma build_steps_result:
  "build_steps ids t s = Inr s' \<Longrightarrow>
   map ss_step_id (rs_steps s') = map ss_step_id (rs_steps s) @ ids
   \<and> ss_state ` set (rs_steps s') \<subseteq> ss_state ` set (rs_steps s) \<union> snd ` set (t_step_states t)
   \<and> (S_SKIPPED \<notin> snd ` set (t_step_states t) \<longrightarrow> rs_skipped_steps s' = rs_skipped_steps s)"
proof (induction ids arbitrary: s)
  case Nil
  then show ?case by simp
next
  case (Cons sid rest)
  from Cons.prems obtain state where state: "map_of (t_step_states t) sid = Some state"
    by (cases "map_of (t_step_states t) sid") simp_all
  define attempts where
    "attempts = (case t_step_attempts t sid of None \<Rightarrow> 0 | Some n \<Rightarrow> n) + 1"
  define info where
    "info = (case t_step_errors t sid of None \<Rightarrow> (None, None) | Some i \<Rightarrow> i)"
  from Cons.prems state obtain ec where ec: "summary_error_class (fst info) = Inr ec"
    by (cases "summary_error_class (fst info)") (simp_all add: info_def Let_def)
  from Cons.prems state ec obtain er where er: "summary_error_reason (snd info) = Inr er"
    by (cases "summary_error_reason (snd info)") (simp_all add: info_def Let_def)
  define entry where
    "entry = \<lparr>ss_step_id = sid, ss_state = state, ss_attempts = attempts,
              ss_error_class = ec, ss_error_reason = er, ss_duration_ms = None,
              ss_started_at = t_step_start_times t sid, ss_completed_at = None\<rparr>"
  define s1 where "s1 = s\<lparr>rs_steps := rs_steps s @ [entry]\<rparr>"
  define s2 where
    "s2 = (if state = S_SUCCEEDED then s1\<lparr>rs_completed_steps := rs_completed_steps s1 + 1\<rparr>
           else if state = S_FAILED then s1\<lparr>rs_failed_steps := rs_failed_steps s1 + 1\<rparr>
           else if state = S_SKIPPED then s1\<lparr>rs_skipped_steps := rs_skipped_steps s1 + 1\<rparr>
           else s1)"
  have rec: "build_steps rest t s2 = Inr s'"
    using Cons.prems state ec er
    unfolding s2_def s1_def entry_def attempts_def info_def
    by (simp add: Let_def)
  define T where "T = snd ` set (t_step_states t)"
  have in_t: "state \<in> T"
    using state unfolding T_def by (force dest: map_of_SomeD)
  have s2: "rs_steps s2 = rs_steps s @ [entry]"
    by (simp add: s2_def s1_def)
  have sk: "state \<noteq> S_SKIPPED \<Longrightarrow> rs_skipped_steps s2 = rs_skipped_steps s"
    by (simp add: s2_def s1_def)
  have entry: "ss_step_id entry = sid" "ss_state entry = state"
    by (simp_all add: entry_def)
  from Cons.IH [OF rec] have ih:
    "map ss_step_id (rs_steps s') = map ss_step_id (rs_steps s2) @ rest"
    "ss_state ` set (rs_steps s') \<subseteq> ss_state ` set (rs_steps s2) \<union> T"
    "S_SKIPPED \<notin> T \<longrightarrow> rs_skipped_steps s' = rs_skipped_steps s2"
    unfolding T_def by blast+
  have c1: "map ss_step_id (rs_steps s') = map ss_step_id (rs_steps s) @ sid # rest"
    using ih(1) by (simp add: s2 entry)
  have "ss_state ` set (rs_steps s2) \<subseteq> ss_state ` set (rs_steps s) \<union> T"
    using in_t by (auto simp: s2 entry)
  with ih(2) have c2: "ss_state ` set (rs_steps s') \<subseteq> ss_state ` set (rs_steps s) \<union> T"
    by blast
  have c3: "S_SKIPPED \<notin> T \<longrightarrow> rs_skipped_steps s' = rs_skipped_steps s"
    using ih(3) sk in_t by metis
  show ?case
    using c1 c2 c3 unfolding T_def by blast
qed

lemma generate_Inr:
  assumes g: "generate diff_ms events = Inr s"
  shows "\<exists>t init s0.
     process_events events
       \<lparr>t_final_state = R_CREATED, t_completed_at = None, t_step_states = [],
        t_step_attempts = Map.empty, t_step_start_times = Map.empty,
        t_step_errors = Map.empty, t_gate_failures = [], t_retry_count = 0\<rparr> = Inr t
     \<and> rs_steps init = [] \<and> rs_skipped_steps init = 0
     \<and> build_steps (sort (map fst (t_step_states t))) t init = Inr s0
     \<and> rs_steps s = rs_steps s0 \<and> rs_skipped_steps s = rs_skipped_steps s0"
proof -
  let ?t0 = "\<lparr>t_final_state = R_CREATED, t_completed_at = None, t_step_states = [],
        t_step_attempts = Map.empty, t_step_start_times = Map.empty,
        t_step_errors = Map.empty, t_gate_failures = [], t_retry_count = 0\<rparr>"
  obtain first rest where ev: "events = first # rest"
    using g by (cases events) (simp_all add: generate_def)
  obtain rid where rid: "get_str first ''run_id'' = Inr rid"
    using g ev by (cases "get_str first ''run_id''") (simp_all add: generate_def)
  obtain created_at where cr: "get_str first ''timestamp_utc'' = Inr created_at"
    using g ev rid by (cases "get_str first ''timestamp_utc''") (simp_all add: generate_def)
  obtain t where pe: "process_events events ?t0 = Inr t"
    using g ev rid cr by (cases "process_events events ?t0") (simp_all add: generate_def)
  define init where
    "init = \<lparr>rs_run_id = rid, rs_final_state = t_final_state t, rs_created_at = created_at,
             rs_completed_at = t_completed_at t, rs_duration_ms = None, rs_steps = [],
             rs_completed_steps = 0, rs_failed_steps = 0, rs_skipped_steps = 0,
             rs_failed_hard_gates = [], rs_total_attempts = 0, rs_total_retries = 0\<rparr>"
  have pe': "process_events (first # rest) ?t0 = Inr t"
    using pe ev by simp
  obtain s0 where bs: "build_steps (sort (map fst (t_step_states t))) t init = Inr s0"
    using g rid cr pe' unfolding ev generate_def init_def
    by (cases "build_steps (sort (map fst (t_step_states t))) t
                 \<lparr>rs_run_id = rid, rs_final_state = t_final_state t,
                  rs_created_at = created_at, rs_completed_at = t_completed_at t,
                  rs_duration_ms = None, rs_steps = [], rs_completed_steps = 0,
                  rs_failed_steps = 0, rs_skipped_steps = 0, rs_failed_hard_gates = [],
                  rs_total_attempts = 0, rs_total_retries = 0\<rparr>")
       (simp_all del: process_events.simps)
  define s1 where
    "s1 = s0\<lparr>rs_total_attempts := sum_list (map ss_attempts (rs_steps s0)),
             rs_total_retries := t_retry_count t,
             rs_failed_hard_gates := sort (t_gate_failures t)\<rparr>"
  have "s = s1 \<or> (\<exists>ms. s = s1\<lparr>rs_duration_ms := Some ms\<rparr>)"
    using g rid cr pe' bs unfolding ev generate_def init_def s1_def
    by (auto simp del: process_events.simps simp add: Let_def split: option.splits if_splits)
  then have "rs_steps s = rs_steps s0 \<and> rs_skipped_steps s = rs_skipped_steps s0"
    by (auto simp: s1_def)
  moreover have "rs_steps init = [] \<and> rs_skipped_steps init = 0"
    by (simp add: init_def)
  ultimately show ?thesis
    using pe bs by blast
qed

text \<open>
  Claim C7, as amended. Whenever \<^verbatim>\<open>generate\<close> returns a summary of a log, the summary
  has one entry for each step that has a \<^verbatim>\<open>step.started\<close>, \<^verbatim>\<open>step.succeeded\<close> or
  \<^verbatim>\<open>step.failed\<close> line in the log and for no other step, in sorted order of the ids.
  A step that was skipped writes no line, so it has no entry: no entry has state
  \<^verbatim>\<open>SKIPPED\<close>, and the skipped count is 0 for every log.
\<close>

theorem summary_lists_logged_steps_only:
  assumes "generate diff_ms events = Inr s"
  shows "set (map ss_step_id (rs_steps s)) = logged_steps events
     \<and> sorted (map ss_step_id (rs_steps s))
     \<and> S_SKIPPED \<notin> ss_state ` set (rs_steps s)
     \<and> rs_skipped_steps s = 0"
proof -
  from generate_Inr [OF assms] obtain t init s0 where
    pe: "process_events events
       \<lparr>t_final_state = R_CREATED, t_completed_at = None, t_step_states = [],
        t_step_attempts = Map.empty, t_step_start_times = Map.empty,
        t_step_errors = Map.empty, t_gate_failures = [], t_retry_count = 0\<rparr> = Inr t"
    and init: "rs_steps init = []" "rs_skipped_steps init = 0"
    and bs: "build_steps (sort (map fst (t_step_states t))) t init = Inr s0"
    and s: "rs_steps s = rs_steps s0" "rs_skipped_steps s = rs_skipped_steps s0"
    by blast
  from process_events_keys [OF pe]
  have keys: "fst ` set (t_step_states t) = logged_steps events"
    and noskip: "S_SKIPPED \<notin> snd ` set (t_step_states t)"
    by simp_all
  from build_steps_result [OF bs]
  have ids: "map ss_step_id (rs_steps s0) = sort (map fst (t_step_states t))"
    and states: "ss_state ` set (rs_steps s0) \<subseteq> snd ` set (t_step_states t)"
    and skipped: "rs_skipped_steps s0 = 0"
    using init noskip by simp_all
  have "set (map ss_step_id (rs_steps s0)) = logged_steps events"
    using keys by (simp add: ids)
  moreover have "sorted (map ss_step_id (rs_steps s0))"
    by (simp add: ids)
  moreover have "S_SKIPPED \<notin> ss_state ` set (rs_steps s0)"
    using states noskip by blast
  ultimately show ?thesis
    using s skipped by simp
qed

lemma sum_run_log:
  "returned sum_run = R_FAILED
   \<and> step_states (ctx (world_of sum_run)) ''step_2'' = Some S_SKIPPED
   \<and> log (world_of sum_run) =
       [run_created ''run_123'' None ''id'' ''2026-01-01T00:00:00+00:00'',
        run_state_changed ''run_123'' R_CREATED R_PREFLIGHT_VALIDATED
          (Some ''Pre-execution validation passed'') ''id'' ''2026-01-01T00:00:00+00:00'',
        run_state_changed ''run_123'' R_PREFLIGHT_VALIDATED R_EXECUTING None
          ''id'' ''2026-01-01T00:00:00+00:00'',
        step_started ''run_123'' ''step_1'' 0 ''id'' ''2026-01-01T00:00:00+00:00'',
        step_failed ''run_123'' ''step_1'' HARD_GATE_FAILED ''Hard gate failed'' 0
          ''id'' ''2026-01-01T00:00:00+00:00'',
        gate_failed ''run_123'' ''step_1'' HARD_GATE_FAILED ''Hard gate failed''
          ''id'' ''2026-01-01T00:00:00+00:00'',
        run_state_changed ''run_123'' R_EXECUTING R_FAILED (Some ''Hard gate failed: step_1'')
          ''id'' ''2026-01-01T00:00:00+00:00'',
        run_completed ''run_123'' R_FAILED (Some ''Hard gate failed: step_1'')
          ''id'' ''2026-01-01T00:00:00+00:00'']"
  by (simp add: sum_run_def sum_dag_def sum_fns_def scenario_defs executor_defs
        execute_step.simps Let_def)

lemmas summary_defs =
  generate_def process_event_def get_str_def get_int_default_def get_RunState_def
  RunState_of_value_def ErrorClass_of_value_def summary_error_class_def
  summary_error_reason_def

lemma sum_run_summary:
  "\<not> isl (generate zero_diff (map to_dict (log (world_of sum_run))))
   \<and> map ss_step_id (rs_steps (projr (generate zero_diff (map to_dict (log (world_of sum_run))))))
       = [''step_1'']
   \<and> rs_skipped_steps (projr (generate zero_diff (map to_dict (log (world_of sum_run))))) = 0
   \<and> rs_failed_steps (projr (generate zero_diff (map to_dict (log (world_of sum_run))))) = 1"
  using sum_run_log
  by (simp add: summary_defs to_dict_simps builder_defs zero_diff_def Let_def)

theorem summary_lists_logged_steps_only_witness:
  "generate zero_diff (map to_dict (log (world_of sum_run)))
     = Inr (projr (generate zero_diff (map to_dict (log (world_of sum_run)))))
   \<and> logged_steps (map to_dict (log (world_of sum_run))) = {''step_1''}
   \<and> S_SKIPPED \<notin> ss_state `
         set (rs_steps (projr (generate zero_diff (map to_dict (log (world_of sum_run))))))
   \<and> rs_skipped_steps (projr (generate zero_diff (map to_dict (log (world_of sum_run))))) = 0"
proof -
  let ?g = "generate zero_diff (map to_dict (log (world_of sum_run)))"
  have "\<not> isl ?g" and ids: "map ss_step_id (rs_steps (projr ?g)) = [''step_1'']"
    using sum_run_summary by blast+
  then have isr: "?g = Inr (projr ?g)"
    by (cases ?g) simp_all
  from summary_lists_logged_steps_only [OF isr]
  have "set (map ss_step_id (rs_steps (projr ?g)))
          = logged_steps (map to_dict (log (world_of sum_run)))"
    and "S_SKIPPED \<notin> ss_state ` set (rs_steps (projr ?g))"
    and "rs_skipped_steps (projr ?g) = 0"
    by blast+
  moreover from this(1) have "logged_steps (map to_dict (log (world_of sum_run))) = {''step_1''}"
    unfolding ids by simp
  ultimately show ?thesis
    using isr by blast
qed

text \<open>
  The run of \<^verbatim>\<open>test_summary_with_failures\<close>: the hard gate \<^verbatim>\<open>step_1\<close> fails and
  \<^verbatim>\<open>step_2\<close> is skipped in memory. The summary of the log has the single entry
  \<^verbatim>\<open>step_1\<close> and a skipped count of 0: the skipped step is neither listed nor counted.
\<close>

theorem summary_omits_skipped_step_counterexample:
  "returned sum_run = R_FAILED
   \<and> step_states (ctx (world_of sum_run)) ''step_2'' = Some S_SKIPPED
   \<and> \<not> isl (generate zero_diff (map to_dict (log (world_of sum_run))))
   \<and> map ss_step_id (rs_steps (projr (generate zero_diff (map to_dict (log (world_of sum_run))))))
       = [''step_1'']
   \<and> rs_skipped_steps (projr (generate zero_diff (map to_dict (log (world_of sum_run))))) = 0"
  using sum_run_log sum_run_summary by blast


section \<open>Scenario S4: retry exhaustion on a step that is no hard gate\<close>

text \<open>
  Claim C6. Take any pipeline of one step that is no hard gate, has \<^verbatim>\<open>max_retries = 2\<close>
  and retry class \<^verbatim>\<open>TRANSIENT_IO\<close>, and a callable that fails with \<^verbatim>\<open>TRANSIENT_IO\<close> on
  every call (with any message). Starting a run on any log and executing it returns
  \<^verbatim>\<open>SUCCEEDED\<close>; the lines added to the log are, in order, \<^verbatim>\<open>run.created\<close>, the two
  transitions to \<^verbatim>\<open>EXECUTING\<close>, then \<^verbatim>\<open>step.started\<close> with attempts 0, 1 and 2, each
  followed by \<^verbatim>\<open>step.failed\<close>, with \<^verbatim>\<open>step.retried\<close> (attempts 1 and 2) after the first
  two failures only, then \<^verbatim>\<open>run.state_changed\<close> and \<^verbatim>\<open>run.completed\<close> carrying
  \<^verbatim>\<open>succeeded\<close>. The step itself ends \<^verbatim>\<open>FAILED\<close>.
\<close>

theorem retry_exhaustion_run_succeeds:
  "\<exists>w. execute
         (PipelineDAG_init
            [\<lparr>sd_step_id = sid, sd_name = nm, is_hard_gate = False, is_manual_gated = mg,
              max_retries = 2, retry_classes = [TRANSIENT_IO]\<rparr>])
         [sid \<mapsto> (\<lambda>c l s. Returns False (Some TRANSIENT_IO) (msg c l s))]
         (start
            (PipelineDAG_init
               [\<lparr>sd_step_id = sid, sd_name = nm, is_hard_gate = False, is_manual_gated = mg,
                 max_retries = 2, retry_classes = [TRANSIENT_IO]\<rparr>])
            e log0 rid rsn)
       = Return R_SUCCEEDED w
     \<and> run_state (ctx w) = R_SUCCEEDED
     \<and> step_states (ctx w) sid = Some S_FAILED
     \<and> take (length log0) (log w) = log0
     \<and> map (\<lambda>ev. (event_type ev, step_id ev, attempt ev, new_state ev))
           (drop (length log0) (log w)) =
         [(RUN_CREATED, None, 0, Some ''created''),
          (RUN_STATE_CHANGED, None, 0, Some ''preflight_validated''),
          (RUN_STATE_CHANGED, None, 0, Some ''executing''),
          (STEP_STARTED, Some sid, 0, Some ''running''),
          (STEP_FAILED, Some sid, 0, Some ''failed''),
          (STEP_RETRIED, Some sid, 1, None),
          (STEP_STARTED, Some sid, 1, Some ''running''),
          (STEP_FAILED, Some sid, 1, Some ''failed''),
          (STEP_RETRIED, Some sid, 2, None),
          (STEP_STARTED, Some sid, 2, Some ''running''),
          (STEP_FAILED, Some sid, 2, Some ''failed''),
          (RUN_STATE_CHANGED, None, 0, Some ''succeeded''),
          (RUN_COMPLETED, None, 0, Some ''succeeded'')]"
  apply (simp add: executor_defs)
  apply (subst execute_step.simps)
  apply (simp add: executor_defs)
  apply (subst execute_step.simps)
  apply (simp add: executor_defs)
  apply (subst execute_step.simps)
  apply (simp add: executor_defs builder_defs)
  done

end
